theory Spec2Isabelle
  imports Complex_Main "HOL-Library.Log_Nat"
begin

section \<open>The WRF-Cmaq preprocessor of InMAP (wrfcmaq.go)\<close>

text \<open>
  The file \<^verbatim>\<open>wrfcmaq.go\<close> wires lazily pulled grids (\<^verbatim>\<open>NextData\<close> closures) into the
  derived quantities InMAP needs: temperature, pressure, layer height, downwelling
  radiation and three land-use remappings. This theory embeds those functions and the
  constructor \<^verbatim>\<open>NewWRFCmaq\<close>.

  Whatever the file takes from outside itself is a parameter of the embedding:
  \<^item> Go's \<^verbatim>\<open>float64\<close> is a type variable \<open>'f\<close> with the operations of record \<open>env\<close>;
    nothing is assumed of them, so every general theorem holds for IEEE arithmetic with
    its NaNs, infinities and rounding. A concrete instance \<open>E64\<close> (binary64 with its two
    zeros, its infinities and NaN; round to nearest, ties to even) is defined after the
    functions;
  \<^item> the package-level names \<^verbatim>\<open>g\<close>, \<^verbatim>\<open>f2i\<close> and \<^verbatim>\<open>inDateFormat\<close> of package inmap, which
    other files of the package declare;
  \<^item> the array library \<^verbatim>\<open>github.com/ctessum/sparse\<close>, the two land-use enumerations of
    \<^verbatim>\<open>github.com/ctessum/atmos\<close>, and \<^verbatim>\<open>time.Parse\<close>, \<^verbatim>\<open>time.ParseDuration\<close>,
    \<^verbatim>\<open>math.Pow\<close> of the standard library.
\<close>

subsection \<open>Outcomes of a call: a value, a returned error, or a run-time panic\<close>

text \<open>
  A Go function of type \<^verbatim>\<open>func() (*sparse.DenseArray, error)\<close> either returns a grid
  (with a nil error), returns an error (with a nil grid), or does not return at all
  because a run-time panic unwinds the stack. Indexing a slice out of range is such a
  panic (\<^verbatim>\<open>runtime error: index out of range\<close>).
\<close>

datatype panic = IndexOutOfRange | LibraryPanic

datatype ('e, 'a) outcome = Ok 'a | Err 'e | Panic panic

subsection \<open>Land-use categories of the deposition packages\<close>

datatype seinfeld_LandUseCategory =
  seinfeld_Evergreen | seinfeld_Deciduous | seinfeld_Grass | seinfeld_Desert | seinfeld_Shrubs

datatype wesely1989_LandUseCategory =
  wesely1989_Urban | wesely1989_Agricultural | wesely1989_Range | wesely1989_Deciduous
| wesely1989_Coniferous | wesely1989_MixedForest | wesely1989_Water | wesely1989_Barren
| wesely1989_Wetland | wesely1989_RangeAg | wesely1989_RockyShrubs

subsection \<open>Dense arrays (sparse.DenseArray)\<close>

text \<open>
  \<^verbatim>\<open>type DenseArray struct { Elements []float64; Shape []int }\<close>. The extents of an
  array are lengths, so \<open>Shape\<close> holds naturals. Arrays are values here: \<^verbatim>\<open>Copy\<close> is
  the identity, and an in-place update returns the updated array.
\<close>

record 'f DenseArray =
  Elements :: "'f list"
  Shape :: "nat list"

subsection \<open>The environment of the file\<close>

record 'f env =
  fadd :: "'f \<Rightarrow> 'f \<Rightarrow> 'f"
  fsub :: "'f \<Rightarrow> 'f \<Rightarrow> 'f"
  fmul :: "'f \<Rightarrow> 'f \<Rightarrow> 'f"
  fdiv :: "'f \<Rightarrow> 'f \<Rightarrow> 'f"
  math_Pow :: "'f \<Rightarrow> 'f \<Rightarrow> 'f"
  flit :: "rat \<Rightarrow> 'f"
  g :: "'f"
  f2i :: "'f \<Rightarrow> int"
  seinfeld_float64 :: "seinfeld_LandUseCategory \<Rightarrow> 'f"
  wesely1989_float64 :: "wesely1989_LandUseCategory \<Rightarrow> 'f"
  Index1d_invalid :: "nat list \<Rightarrow> nat list \<Rightarrow> panic + nat"
  AddDense_mismatch :: "'f DenseArray \<Rightarrow> 'f DenseArray \<Rightarrow> panic + 'f DenseArray"

text \<open>
  \<^item> \<open>fadd\<close>, \<open>fsub\<close>, \<open>fmul\<close>, \<open>fdiv\<close>: the operators \<^verbatim>\<open>+ - * /\<close> on \<^verbatim>\<open>float64\<close>;
    \<open>math_Pow\<close>: \<^verbatim>\<open>math.Pow\<close>; \<open>flit q\<close>: the \<^verbatim>\<open>float64\<close> a constant of exact value \<open>q\<close>
    converts to.
  \<^item> \<open>g\<close>, \<open>f2i\<close>: the constant and the float-to-int helper of package inmap.
  \<^item> \<open>seinfeld_float64\<close>, \<open>wesely1989_float64\<close>: the conversion \<^verbatim>\<open>float64(c)\<close> of a
    category \<open>c\<close>.
  \<^item> \<open>Index1d_invalid shape idx\<close>: what the array library does with an index whose
    arity or range does not fit the shape; \<open>AddDense_mismatch\<close>: what \<^verbatim>\<open>AddDense\<close> does
    with two arrays of different shape or size. Either may panic or carry on with some
    value; no theorem below assumes which.
\<close>

subsection \<open>The array library, on the calls that fit the shape\<close>

text \<open>
  The package \<^verbatim>\<open>github.com/ctessum/sparse\<close> is not among the sources of the repository.
  Its functions are modelled on the calls that fit the shape of the array; what the
  library does with any other call is the parameter \<open>Index1d_invalid\<close> or
  \<open>AddDense_mismatch\<close> of the environment.
\<close>

text \<open>
  Modelled from the spec: \<^verbatim>\<open>sparse.ZerosDense\<close>, which is missing. A grid is ``an
  n-dimensional array of floating-point values''; \<^verbatim>\<open>ZerosDense(dims...)\<close> is the grid of
  that shape with every cell zero.
\<close>

definition ZerosDense :: "'f env \<Rightarrow> nat list \<Rightarrow> 'f DenseArray" where
  "ZerosDense E dims = \<lparr>Elements = replicate (prod_list dims) (flit E 0), Shape = dims\<rparr>"

text \<open>
  Modelled from the spec: \<^verbatim>\<open>(*DenseArray).Copy\<close>, which is missing. The copy is an equal
  array that shares no storage with the original.
\<close>

definition DenseArray_Copy :: "'f DenseArray \<Rightarrow> 'f DenseArray" where
  "DenseArray_Copy A = A"

text \<open>
  Modelled from the spec: \<^verbatim>\<open>(*DenseArray).Index1d\<close>, \<^verbatim>\<open>Get\<close> and \<^verbatim>\<open>Set\<close>, which are
  missing. \<^verbatim>\<open>Get(k, j, i)\<close> reads and \<^verbatim>\<open>Set(v, k, j, i)\<close> writes the cell ``at layer \<open>k\<close>,
  row \<open>j\<close>, column \<open>i\<close>''. The cells lie in \<open>Elements\<close> in row-major order: the position
  of an index is the sum of \<open>idx[i] * (Shape[i+1] * ... )\<close>. Reading or writing
  \<open>Elements\<close> at that position is a slice access, with Go's bounds check.
\<close>

fun flat_index :: "nat list \<Rightarrow> nat list \<Rightarrow> nat" where
  "flat_index (n # ns) (i # js) = i * prod_list ns + flat_index ns js"
| "flat_index ns js = 0"

definition Index1d :: "'f env \<Rightarrow> 'f DenseArray \<Rightarrow> nat list \<Rightarrow> panic + nat" where
  "Index1d E A idx =
     (if list_all2 (<) idx (Shape A) then Inr (flat_index (Shape A) idx)
      else Index1d_invalid E (Shape A) idx)"

definition DenseArray_Get :: "'f env \<Rightarrow> 'f DenseArray \<Rightarrow> nat list \<Rightarrow> panic + 'f" where
  "DenseArray_Get E A idx =
     (case Index1d E A idx of
        Inl x \<Rightarrow> Inl x
      | Inr n \<Rightarrow> if n < length (Elements A) then Inr (Elements A ! n) else Inl IndexOutOfRange)"

definition DenseArray_Set :: "'f env \<Rightarrow> 'f DenseArray \<Rightarrow> 'f \<Rightarrow> nat list \<Rightarrow> panic + 'f DenseArray" where
  "DenseArray_Set E A v idx =
     (case Index1d E A idx of
        Inl x \<Rightarrow> Inl x
      | Inr n \<Rightarrow> if n < length (Elements A) then Inr (A\<lparr>Elements := (Elements A)[n := v]\<rparr>)
                else Inl IndexOutOfRange)"

text \<open>
  Modelled from the spec: \<^verbatim>\<open>(*DenseArray).AddDense\<close>, which is missing. \<^verbatim>\<open>A.AddDense(B)\<close>
  is the ``elementwise add'' of the pressure and radiation combinators, stored in \<open>A\<close>.
\<close>

definition DenseArray_AddDense :: "'f env \<Rightarrow> 'f DenseArray \<Rightarrow> 'f DenseArray \<Rightarrow> panic + 'f DenseArray" where
  "DenseArray_AddDense E A B =
     (if Shape A = Shape B \<and> length (Elements A) = length (Elements B)
      then Inr (A\<lparr>Elements := map2 (fadd E) (Elements A) (Elements B)\<rparr>)
      else AddDense_mismatch E A B)"

text \<open>
  An array is well formed when it holds as many elements as its shape spans, which is
  how \<^verbatim>\<open>ZerosDense\<close> and the readers build it. \<open>cell A idx\<close> is the element of a
  well-formed array at a valid index.
\<close>

definition wf_array :: "'f DenseArray \<Rightarrow> bool" where
  "wf_array A = (length (Elements A) = prod_list (Shape A))"

definition cell :: "'f DenseArray \<Rightarrow> nat list \<Rightarrow> 'f" where
  "cell A idx = Elements A ! flat_index (Shape A) idx"

text \<open>A Go slice index \<^verbatim>\<open>s[i]\<close> with its bounds check.\<close>

definition slice_at :: "'a list \<Rightarrow> int \<Rightarrow> panic + 'a" where
  "slice_at xs i = (if 0 \<le> i \<and> i < int (length xs) then Inr (xs ! nat i) else Inl IndexOutOfRange)"

text \<open>A loop body run for each element of a list in turn; the first panic ends the loop.\<close>

fun for_each :: "('a \<Rightarrow> 'b \<Rightarrow> panic + 'b) \<Rightarrow> 'a list \<Rightarrow> 'b \<Rightarrow> panic + 'b" where
  "for_each body [] acc = Inr acc"
| "for_each body (x # xs) acc =
     (case body x acc of Inl p \<Rightarrow> Inl p | Inr acc' \<Rightarrow> for_each body xs acc')"

subsection \<open>Lazy grid producers (NextData)\<close>

text \<open>
  \<^verbatim>\<open>type NextData func() (*sparse.DenseArray, error)\<close> is a closure over a time cursor:
  each call advances the cursor. The hidden state is the explicit \<open>'s\<close>. A producer
  returns a grid or an error (or panics); one that returns neither is not modelled.
  \<open>constData\<close> and \<open>failData\<close> are the producers that always return the same grid or
  the same error and keep no state.
\<close>

type_synonym ('s, 'e, 'f) NextData = "'s \<Rightarrow> ('e, 'f DenseArray) outcome \<times> 's"

definition constData :: "'f DenseArray \<Rightarrow> ('s, 'e, 'f) NextData" where
  "constData A = (\<lambda>s. (Ok A, s))"

definition failData :: "'e \<Rightarrow> ('s, 'e, 'f) NextData" where
  "failData e = (\<lambda>s. (Err e, s))"

section \<open>The lookup tables\<close>

definition NLCDseinfeld :: "seinfeld_LandUseCategory list" where
  "NLCDseinfeld = [
     seinfeld_Evergreen, seinfeld_Deciduous, seinfeld_Evergreen, seinfeld_Deciduous,
     seinfeld_Deciduous, seinfeld_Shrubs, seinfeld_Shrubs, seinfeld_Shrubs,
     seinfeld_Grass, seinfeld_Grass, seinfeld_Grass, seinfeld_Grass,
     seinfeld_Desert, seinfeld_Grass, seinfeld_Desert, seinfeld_Desert,
     seinfeld_Desert, seinfeld_Desert, seinfeld_Desert, seinfeld_Desert,
     seinfeld_Desert, seinfeld_Desert, seinfeld_Desert, seinfeld_Desert,
     seinfeld_Desert, seinfeld_Desert, seinfeld_Desert, seinfeld_Deciduous,
     seinfeld_Evergreen, seinfeld_Deciduous, seinfeld_Shrubs, seinfeld_Shrubs,
     seinfeld_Grass, seinfeld_Grass, seinfeld_Desert, seinfeld_Desert,
     seinfeld_Grass, seinfeld_Grass, seinfeld_Deciduous, seinfeld_Grass]"

definition NLCDwesely :: "wesely1989_LandUseCategory list" where
  "NLCDwesely = [
     wesely1989_Coniferous, wesely1989_Deciduous, wesely1989_Coniferous, wesely1989_Deciduous,
     wesely1989_MixedForest, wesely1989_RockyShrubs, wesely1989_RockyShrubs, wesely1989_RockyShrubs,
     wesely1989_Range, wesely1989_Range, wesely1989_Wetland, wesely1989_RangeAg,
     wesely1989_Urban, wesely1989_RangeAg, wesely1989_Barren, wesely1989_Barren,
     wesely1989_Water, wesely1989_Barren, wesely1989_Barren, wesely1989_Barren,
     wesely1989_Water, wesely1989_Barren, wesely1989_Urban, wesely1989_Urban,
     wesely1989_Urban, wesely1989_Urban, wesely1989_Barren, wesely1989_Deciduous,
     wesely1989_Coniferous, wesely1989_MixedForest, wesely1989_RockyShrubs, wesely1989_RockyShrubs,
     wesely1989_Range, wesely1989_Range, wesely1989_Barren, wesely1989_Barren,
     wesely1989_RangeAg, wesely1989_RangeAg, wesely1989_Wetland, wesely1989_Wetland]"

text \<open>The roughness lengths are constants of the source, given by their exact decimal values.\<close>

definition NLCDz0_literals :: "rat list" where
  "NLCDz0_literals = [
     50/100, 50/100, 50/100, 50/100, 35/100, 3/100, 35/1000, 3/100, 15/100, 11/100,
     30/100, 10/100, 50/100, 95/1000, 1/1000, 1/100, 1/10000, 999, 999, 999,
     1/10000, 1/1000, 50/100, 70/100, 15/10, 2, 1/100, 50/100, 50/100, 35/100,
     25/1000, 3/100, 11/100, 20/100, 1/100, 1/100, 10/100, 6/100, 40/100, 20/100]"

definition NLCDz0 :: "'f env \<Rightarrow> 'f list" where
  "NLCDz0 E = map (flit E) NLCDz0_literals"

text \<open>A land-use code \<open>c\<close> is in range for a table when \<open>table[c - 1]\<close> exists.\<close>

definition code_in_range :: "'a list \<Rightarrow> int \<Rightarrow> bool" where
  "code_in_range table c = (1 \<le> c \<and> c \<le> int (length table))"

section \<open>Calls that may panic\<close>

text \<open>Sequencing of calls that may panic, and the passage from a panic to an outcome.\<close>

definition pbind :: "panic + 'a \<Rightarrow> ('a \<Rightarrow> panic + 'b) \<Rightarrow> panic + 'b" where
  "pbind m k = (case m of Inl x \<Rightarrow> Inl x | Inr a \<Rightarrow> k a)"

definition lift :: "panic + 'a \<Rightarrow> ('e, 'a) outcome" where
  "lift m = (case m of Inl x \<Rightarrow> Panic x | Inr a \<Rightarrow> Ok a)"

text \<open>A Go slice assignment \<^verbatim>\<open>s[i] = v\<close> with its bounds check.\<close>

definition slice_set :: "'a list \<Rightarrow> nat \<Rightarrow> 'a \<Rightarrow> panic + 'a list" where
  "slice_set xs i v = (if i < length xs then Inr (xs[i := v]) else Inl IndexOutOfRange)"

text \<open>
  \<^verbatim>\<open>x, err := f(); if err != nil { return nil, err }\<close>: the upstream producer is pulled
  once; its error is returned as it is, its panic unwinds through the caller, and only a
  grid reaches the continuation.
\<close>

definition pull ::
  "('s, 'e, 'f) NextData \<Rightarrow> 's \<Rightarrow> ('f DenseArray \<Rightarrow> 's \<Rightarrow> ('e, 'a) outcome \<times> 's)
   \<Rightarrow> ('e, 'a) outcome \<times> 's" where
  "pull f s k =
     (case f s of (r, s') \<Rightarrow>
        (case r of Ok A \<Rightarrow> k A s' | Err e \<Rightarrow> (Err e, s') | Panic x \<Rightarrow> (Panic x, s')))"

section \<open>Temperature\<close>

text \<open>
  \<^verbatim>\<open>thetaPerturbToTemperature\<close>: \<^verbatim>\<open>po = 101300.\<close>, \<^verbatim>\<open>kappa = 0.2854\<close>,
  \<^verbatim>\<open>pressureCorrection := math.Pow(p/po, kappa)\<close>, \<^verbatim>\<open>\<theta> := thetaPerturb + 300.\<close>,
  result \<^verbatim>\<open>\<theta> * pressureCorrection\<close>.
\<close>

definition thetaPerturbToTemperature :: "'f env \<Rightarrow> 'f \<Rightarrow> 'f \<Rightarrow> 'f" where
  "thetaPerturbToTemperature E thetaPerturb p =
     (let po = flit E 101300;
          kappa = flit E (2854 / 10000);
          pressureCorrection = math_Pow E (fdiv E p po) kappa;
          theta = fadd E thetaPerturb (flit E 300)
      in fmul E theta pressureCorrection)"

text \<open>
  The loop of \<^verbatim>\<open>cmaqTemperatureConvert\<close>:
  \<^verbatim>\<open>for i, tp := range thetaPerturb.Elements { T.Elements[i] = thetaPerturbToTemperature(tp, p.Elements[i]) }\<close>.
\<close>

definition temperature_cell ::
  "'f env \<Rightarrow> 'f DenseArray \<Rightarrow> nat \<times> 'f \<Rightarrow> 'f DenseArray \<Rightarrow> panic + 'f DenseArray" where
  "temperature_cell E p = (\<lambda>(i, tp) T.
     pbind (slice_at (Elements p) (int i)) (\<lambda>pv.
     pbind (slice_set (Elements T) i (thetaPerturbToTemperature E tp pv)) (\<lambda>els.
     Inr (T\<lparr>Elements := els\<rparr>))))"

definition cmaqTemperatureConvert ::
  "'f env \<Rightarrow> ('s, 'e, 'f) NextData \<Rightarrow> ('s, 'e, 'f) NextData \<Rightarrow> ('s, 'e, 'f) NextData" where
  "cmaqTemperatureConvert E thetaFunc pFunc = (\<lambda>s.
     pull thetaFunc s (\<lambda>thetaPerturb s1.
     pull pFunc s1 (\<lambda>p s2.
       (lift (for_each (temperature_cell E p) (enumerate 0 (Elements thetaPerturb))
                (ZerosDense E (Shape thetaPerturb))), s2))))"

section \<open>Pressure and downwelling radiation\<close>

text \<open>\<^verbatim>\<open>P := pb.Copy(); P.AddDense(p); return P, nil\<close>, the baseline being pulled first.\<close>

definition cmaqPressureConvert ::
  "'f env \<Rightarrow> ('s, 'e, 'f) NextData \<Rightarrow> ('s, 'e, 'f) NextData \<Rightarrow> ('s, 'e, 'f) NextData" where
  "cmaqPressureConvert E pFunc pbFunc = (\<lambda>s.
     pull pbFunc s (\<lambda>pb s1.
     pull pFunc s1 (\<lambda>p s2.
       (lift (DenseArray_AddDense E (DenseArray_Copy pb) p), s2))))"

text \<open>\<^verbatim>\<open>rad := swDown.Copy(); rad.AddDense(glw); return rad, nil\<close>.\<close>

definition cmaqRadiationDown ::
  "'f env \<Rightarrow> ('s, 'e, 'f) NextData \<Rightarrow> ('s, 'e, 'f) NextData \<Rightarrow> ('s, 'e, 'f) NextData" where
  "cmaqRadiationDown E swDownFunc glwFunc = (\<lambda>s.
     pull swDownFunc s (\<lambda>swDown s1.
     pull glwFunc s1 (\<lambda>glw s2.
       (lift (DenseArray_AddDense E (DenseArray_Copy swDown) glw), s2))))"

section \<open>Layer height\<close>

text \<open>
  One cell of \<^verbatim>\<open>geopotentialToHeight\<close>:
  \<^verbatim>\<open>h := (ph.Get(k, j, i) + phb.Get(k, j, i) - ph.Get(0, j, i) - phb.Get(0, j, i)) / g\<close>,
  \<^verbatim>\<open>layerHeights.Set(h, k, j, i)\<close>. Go evaluates the four calls from left to right and
  the operators \<^verbatim>\<open>+ - -\<close> from left to right.
\<close>

definition height_cell ::
  "'f env \<Rightarrow> 'f DenseArray \<Rightarrow> 'f DenseArray \<Rightarrow> nat \<Rightarrow> nat \<Rightarrow> nat \<Rightarrow> 'f DenseArray
   \<Rightarrow> panic + 'f DenseArray" where
  "height_cell E ph phb k j i layerHeights =
     pbind (DenseArray_Get E ph [k, j, i]) (\<lambda>a.
     pbind (DenseArray_Get E phb [k, j, i]) (\<lambda>b.
     pbind (DenseArray_Get E ph [0, j, i]) (\<lambda>a0.
     pbind (DenseArray_Get E phb [0, j, i]) (\<lambda>b0.
       DenseArray_Set E layerHeights
         (fdiv E (fsub E (fsub E (fadd E a b) a0) b0) (g E)) [k, j, i]))))"


text \<open>
  The three nested loops run over \<^verbatim>\<open>ph.Shape[0]\<close>, \<^verbatim>\<open>ph.Shape[1]\<close> and \<^verbatim>\<open>ph.Shape[2]\<close>;
  each bound is read when its loop is reached, and reading a missing extent panics.
\<close>

definition geopotentialToHeight ::
  "'f env \<Rightarrow> 'f DenseArray \<Rightarrow> 'f DenseArray \<Rightarrow> panic + 'f DenseArray" where
  "geopotentialToHeight E ph phb =
     pbind (slice_at (Shape ph) 0) (\<lambda>n0.
       for_each (\<lambda>k acc.
         pbind (slice_at (Shape ph) 1) (\<lambda>n1.
           for_each (\<lambda>j acc.
             pbind (slice_at (Shape ph) 2) (\<lambda>n2.
               for_each (\<lambda>i acc. height_cell E ph phb k j i acc) [0..<n2] acc))
           [0..<n1] acc))
       [0..<n0] (ZerosDense E (Shape ph)))"

text \<open>The closure returned by \<^verbatim>\<open>(*WRFCmaq).Height\<close>, for the two producers it reads.\<close>

definition Height_pull ::
  "'f env \<Rightarrow> ('s, 'e, 'f) NextData \<Rightarrow> ('s, 'e, 'f) NextData \<Rightarrow> ('s, 'e, 'f) NextData" where
  "Height_pull E phFunc phbFunc = (\<lambda>s.
     pull phFunc s (\<lambda>ph s1.
     pull phbFunc s1 (\<lambda>phb s2.
       (lift (geopotentialToHeight E ph phb), s2))))"

section \<open>Land-use remapping\<close>

text \<open>
  The table index \<^verbatim>\<open>f2i(x) - 1\<close> is computed on Go's \<^verbatim>\<open>int\<close>, 64 bits wide on the
  platforms the model runs on: subtracting one from the least integer wraps around to the
  greatest. (Where \<^verbatim>\<open>int\<close> has 32 bits the wrap is at \<open>-2^31\<close>; either way the index it
  gives is far beyond a table of 40 entries, as the unwrapped \<open>c - 1\<close> is below it.)
\<close>

definition int_sub1 :: "int \<Rightarrow> int" where
  "int_sub1 c = (if c = - (2 ^ 63) then 2 ^ 63 - 1 else c - 1)"

text \<open>\<^verbatim>\<open>o.Set(float64(NLCDseinfeld[f2i(lu.Get(j, i)) - 1]), j, i)\<close>\<close>

definition seinfeld_cell ::
  "'f env \<Rightarrow> 'f DenseArray \<Rightarrow> nat \<Rightarrow> nat \<Rightarrow> 'f DenseArray \<Rightarrow> panic + 'f DenseArray" where
  "seinfeld_cell E lu j i out =
     pbind (DenseArray_Get E lu [j, i]) (\<lambda>v.
     pbind (slice_at NLCDseinfeld (int_sub1 (f2i E v))) (\<lambda>c.
       DenseArray_Set E out (seinfeld_float64 E c) [j, i]))"

definition cmaqSeinfeldLandUse :: "'f env \<Rightarrow> ('s, 'e, 'f) NextData \<Rightarrow> ('s, 'e, 'f) NextData" where
  "cmaqSeinfeldLandUse E luFunc = (\<lambda>s.
     pull luFunc s (\<lambda>lu s1.
       (lift (pbind (slice_at (Shape lu) 0) (\<lambda>n0.
                for_each (\<lambda>j acc.
                  pbind (slice_at (Shape lu) 1) (\<lambda>n1.
                    for_each (\<lambda>i acc. seinfeld_cell E lu j i acc) [0..<n1] acc))
                [0..<n0] (ZerosDense E (Shape lu)))), s1)))"

text \<open>\<^verbatim>\<open>o.Set(float64(NLCDwesely[f2i(lu.Get(j, i)) - 1]), j, i)\<close>\<close>

definition wesely_cell ::
  "'f env \<Rightarrow> 'f DenseArray \<Rightarrow> nat \<Rightarrow> nat \<Rightarrow> 'f DenseArray \<Rightarrow> panic + 'f DenseArray" where
  "wesely_cell E lu j i out =
     pbind (DenseArray_Get E lu [j, i]) (\<lambda>v.
     pbind (slice_at NLCDwesely (int_sub1 (f2i E v))) (\<lambda>c.
       DenseArray_Set E out (wesely1989_float64 E c) [j, i]))"

definition cmaqWeselyLandUse :: "'f env \<Rightarrow> ('s, 'e, 'f) NextData \<Rightarrow> ('s, 'e, 'f) NextData" where
  "cmaqWeselyLandUse E luFunc = (\<lambda>s.
     pull luFunc s (\<lambda>lu s1.
       (lift (pbind (slice_at (Shape lu) 0) (\<lambda>n0.
                for_each (\<lambda>j acc.
                  pbind (slice_at (Shape lu) 1) (\<lambda>n1.
                    for_each (\<lambda>i acc. wesely_cell E lu j i acc) [0..<n1] acc))
                [0..<n0] (ZerosDense E (Shape lu)))), s1)))"

text \<open>
  \<^verbatim>\<open>for i, lu := range luIndex.Elements { zo.Elements[i] = NLCDz0[f2i(lu) - 1] }\<close>
\<close>

definition z0_cell :: "'f env \<Rightarrow> nat \<times> 'f \<Rightarrow> 'f DenseArray \<Rightarrow> panic + 'f DenseArray" where
  "z0_cell E = (\<lambda>(i, lu) zo.
     pbind (slice_at (NLCDz0 E) (int_sub1 (f2i E lu))) (\<lambda>z.
     pbind (slice_set (Elements zo) i z) (\<lambda>els.
     Inr (zo\<lparr>Elements := els\<rparr>))))"

definition cmaqZ0 :: "'f env \<Rightarrow> ('s, 'e, 'f) NextData \<Rightarrow> ('s, 'e, 'f) NextData" where
  "cmaqZ0 E LUIndexFunc = (\<lambda>s.
     pull LUIndexFunc s (\<lambda>luIndex s1.
       (lift (for_each (z0_cell E) (enumerate 0 (Elements luIndex))
                (ZerosDense E (Shape luIndex))), s1)))"

section \<open>The accessors of the preprocessor\<close>

text \<open>
  The accessors obtain their raw producers from \<^verbatim>\<open>w.read\<close>, which hands the variable name
  to the NetCDF reader of another file; \<open>rd\<close> stands for it.
\<close>

definition WRFCmaq_Height :: "'f env \<Rightarrow> (string \<Rightarrow> ('s, 'e, 'f) NextData) \<Rightarrow> ('s, 'e, 'f) NextData" where
  "WRFCmaq_Height E rd = (let phFunc = rd ''PH''; phbFunc = rd ''PHB'' in Height_pull E phFunc phbFunc)"

definition WRFCmaq_P :: "'f env \<Rightarrow> (string \<Rightarrow> ('s, 'e, 'f) NextData) \<Rightarrow> ('s, 'e, 'f) NextData" where
  "WRFCmaq_P E rd = (let pbFunc = rd ''PB''; pFunc = rd ''P'' in cmaqPressureConvert E pFunc pbFunc)"

definition WRFCmaq_T :: "'f env \<Rightarrow> (string \<Rightarrow> ('s, 'e, 'f) NextData) \<Rightarrow> ('s, 'e, 'f) NextData" where
  "WRFCmaq_T E rd = (let thetaFunc = rd ''T''; pFunc = WRFCmaq_P E rd
                     in cmaqTemperatureConvert E thetaFunc pFunc)"

definition WRFCmaq_SeinfeldLandUse ::
  "'f env \<Rightarrow> (string \<Rightarrow> ('s, 'e, 'f) NextData) \<Rightarrow> ('s, 'e, 'f) NextData" where
  "WRFCmaq_SeinfeldLandUse E rd = cmaqSeinfeldLandUse E (rd ''LU_INDEX'')"

definition WRFCmaq_WeselyLandUse ::
  "'f env \<Rightarrow> (string \<Rightarrow> ('s, 'e, 'f) NextData) \<Rightarrow> ('s, 'e, 'f) NextData" where
  "WRFCmaq_WeselyLandUse E rd = cmaqWeselyLandUse E (rd ''LU_INDEX'')"

definition WRFCmaq_Z0 :: "'f env \<Rightarrow> (string \<Rightarrow> ('s, 'e, 'f) NextData) \<Rightarrow> ('s, 'e, 'f) NextData" where
  "WRFCmaq_Z0 E rd = cmaqZ0 E (rd ''LU_INDEX'')"

definition WRFCmaq_RadiationDown ::
  "'f env \<Rightarrow> (string \<Rightarrow> ('s, 'e, 'f) NextData) \<Rightarrow> ('s, 'e, 'f) NextData" where
  "WRFCmaq_RadiationDown E rd =
     (let swDownFunc = rd ''SWDOWN''; glwFunc = rd ''GLW'' in cmaqRadiationDown E swDownFunc glwFunc)"

section \<open>The constructor\<close>

text \<open>
  \<^verbatim>\<open>type WRFCmaq struct\<close>. The eleven species groups map a variable name to its weight
  (each literal weight is \<^verbatim>\<open>1.\<close>); times are values of \<^verbatim>\<open>time.Time\<close>, durations are
  nanosecond counts (\<^verbatim>\<open>time.Duration\<close>). The field \<^verbatim>\<open>end\<close> is named \<open>endTime\<close>.
\<close>

record ('t, 'c) WRFCmaq =
  aVOC :: "string \<rightharpoonup> rat"
  bVOC :: "string \<rightharpoonup> rat"
  aSOA :: "string \<rightharpoonup> rat"
  bSOA :: "string \<rightharpoonup> rat"
  nox :: "string \<rightharpoonup> rat"
  pNO :: "string \<rightharpoonup> rat"
  sox :: "string \<rightharpoonup> rat"
  pS :: "string \<rightharpoonup> rat"
  nh3 :: "string \<rightharpoonup> rat"
  pNH :: "string \<rightharpoonup> rat"
  totalPM25 :: "string \<rightharpoonup> rat"
  start :: 't
  endTime :: 't
  cmaqOut :: string
  recordDelta :: int
  fileDelta :: int
  msgChan :: 'c

text \<open>
  What the constructor takes from outside the file: \<^verbatim>\<open>time.Parse\<close> and
  \<^verbatim>\<open>time.ParseDuration\<close> (an error is its message), and the layout \<^verbatim>\<open>inDateFormat\<close> of
  package inmap.
\<close>

record 't time_env =
  time_Parse :: "string \<Rightarrow> string \<Rightarrow> string + 't"
  time_ParseDuration :: "string \<Rightarrow> string + int"
  inDateFormat :: string

definition hour :: int where
  "hour = 3600 * 1000000000"

definition NewWRFCmaq ::
  "'t time_env \<Rightarrow> string \<Rightarrow> string \<Rightarrow> string \<Rightarrow> 'c \<Rightarrow> string + ('t, 'c) WRFCmaq" where
  "NewWRFCmaq T WRFOut startDate endDate ch =
     (case time_Parse T (inDateFormat T) startDate of
        Inl err \<Rightarrow> Inl (''inmap: WRF-Cmaq preprocessor start time: '' @ err)
      | Inr t0 \<Rightarrow>
     (case time_Parse T (inDateFormat T) endDate of
        Inl err \<Rightarrow> Inl (''inmap: WRF-Cmaq preprocessor end time: '' @ err)
      | Inr t1 \<Rightarrow>
     (case time_ParseDuration T ''1h'' of
        Inl err \<Rightarrow> Inl (''inmap: WRF-Cmaq preprocessor recordDelta: '' @ err)
      | Inr d0 \<Rightarrow>
     (case time_ParseDuration T ''24h'' of
        Inl err \<Rightarrow> Inl (''inmap: WRF-Cmaq preprocessor fileDelta: '' @ err)
      | Inr d1 \<Rightarrow>
        Inr \<lparr>aVOC = [''aVOC'' \<mapsto> 1], bVOC = [''bVOC'' \<mapsto> 1],
             aSOA = [''aSOA'' \<mapsto> 1], bSOA = [''bSOA'' \<mapsto> 1],
             nox = [''gNO'' \<mapsto> 1], pNO = [''pNO'' \<mapsto> 1],
             sox = [''gS'' \<mapsto> 1], pS = [''pS'' \<mapsto> 1],
             nh3 = [''gNH'' \<mapsto> 1], pNH = [''pNH'' \<mapsto> 1],
             totalPM25 = [''TotalPM25'' \<mapsto> 1],
             start = t0, endTime = t1, cmaqOut = WRFOut,
             recordDelta = d0, fileDelta = d1, msgChan = ch\<rparr>))))"

text \<open>
  A stand-in for package \<^verbatim>\<open>time\<close>, to instantiate the theorems about the constructor: it
  takes a date to be any string of eight decimal digits (a time is that string; the
  calendar is not checked) and knows the two durations the constructor asks for.
\<close>

definition sample_time :: "string time_env" where
  "sample_time =
     \<lparr>time_Parse = (\<lambda>layout v.
        if length v = 8 \<and> list_all (\<lambda>c. c \<in> set ''0123456789'') v then Inr v
        else Inl (''parsing time '' @ v @ '' as '' @ layout)),
      time_ParseDuration = (\<lambda>d.
        if d = ''1h'' then Inr hour else if d = ''24h'' then Inr (24 * hour)
        else Inl (''time: invalid duration '' @ d)),
      inDateFormat = ''20060102''\<rparr>"

section \<open>An instance of the environment: binary64\<close>

text \<open>
  Go's \<^verbatim>\<open>float64\<close> is IEEE 754 binary64. Its values are the finite numbers
  \<open>m * 2^e\<close> with a significand of 53 bits, two zeros, two infinities and the NaNs:
  \<^item> \<open>Fin q\<close> is the finite value that denotes the rational \<open>q\<close>, and \<open>Fin 0\<close> is the
    positive zero;
  \<^item> \<open>NegZero\<close> is the negative zero, \<open>PosInf\<close> and \<open>NegInf\<close> are the infinities;
  \<^item> \<open>NaN\<close> stands for every not-a-number (the payload and the sign of a NaN are not
    distinguished).
\<close>

datatype float64 = Fin rat | NegZero | PosInf | NegInf | NaN

text \<open>
  Rounding to nearest, ties to the even significand, has two steps. The first,
  \<open>nearest64\<close>, rounds a rational to the nearest number with a significand of 53 bits as
  if the exponent had no upper bound: \<open>binade q\<close> is the exponent \<open>e\<close> with
  \<open>2^e \<le> |q| < 2^(e+1)\<close>, the spacing of the values there is \<open>2^(e-52)\<close>, and below
  \<open>2^-1022\<close> the spacing stays \<open>2^-1074\<close> (gradual underflow).
\<close>

definition pow2 :: "int \<Rightarrow> rat" where
  "pow2 e = (if 0 \<le> e then 2 ^ nat e else 1 / 2 ^ nat (- e))"

definition round_half_even :: "rat \<Rightarrow> int" where
  "round_half_even q =
     (let n = \<lfloor>q\<rfloor>; r = q - of_int n
      in if r < 1 / 2 then n else if 1 / 2 < r then n + 1 else if even n then n else n + 1)"

definition binade :: "rat \<Rightarrow> int" where
  "binade q =
     (case quotient_of \<bar>q\<bar> of (a, b) \<Rightarrow>
        (let d = int (floorlog 2 (nat a)) - int (floorlog 2 (nat b))
         in if pow2 d \<le> \<bar>q\<bar> then d else d - 1))"

definition nearest64 :: "rat \<Rightarrow> rat" where
  "nearest64 q =
     (if q = 0 then 0
      else (let e = max (binade q - 52) (- 1074)
            in of_int (round_half_even (q / pow2 e)) * pow2 e))"

text \<open>
  The second step is the range: the largest finite value is
  \<^verbatim>\<open>math.MaxFloat64\<close> \<open>= (2^53 - 1) * 2^971\<close>, and a result that the first step puts
  beyond it overflows to the infinity of its sign. A non-zero exact result that rounds to
  zero keeps its sign. \<open>round64 q\<close> is the \<^verbatim>\<open>float64\<close> that an operation with the exact
  result \<open>q\<close> delivers; for \<open>q = 0\<close> it is the positive zero, and the operations below
  say where a zero result is the negative one.
\<close>

definition MaxFloat64 :: rat where
  "MaxFloat64 = (2 ^ 53 - 1) * 2 ^ 971"

definition round64 :: "rat \<Rightarrow> float64" where
  "round64 q =
     (let r = nearest64 q
      in if MaxFloat64 < r then PosInf
         else if r < - MaxFloat64 then NegInf
         else if r = 0 \<and> q < 0 then NegZero
         else Fin r)"



definition is_inf :: "float64 \<Rightarrow> bool" where
  "is_inf x = (x = PosInf \<or> x = NegInf)"

definition is_zero :: "float64 \<Rightarrow> bool" where
  "is_zero x = (x = Fin 0 \<or> x = NegZero)"

text \<open>The rational a finite value denotes (used on finite values only), and the sign bit.\<close>

definition val :: "float64 \<Rightarrow> rat" where
  "val x = (case x of Fin q \<Rightarrow> q | _ \<Rightarrow> 0)"

definition negative :: "float64 \<Rightarrow> bool" where
  "negative x = (case x of Fin q \<Rightarrow> q < 0 | NegZero \<Rightarrow> True | NegInf \<Rightarrow> True | _ \<Rightarrow> False)"

text \<open>
  The four operators, with the special cases of IEEE 754: an operation on a NaN is NaN;
  \<open>\<infinity> - \<infinity>\<close>, \<open>0 * \<infinity>\<close>, \<open>0 / 0\<close> and \<open>\<infinity> / \<infinity>\<close> are NaN; a finite non-zero value
  divided by a zero is an infinity; the sign of a product or quotient is the product of
  the signs; a sum that is exactly zero is the positive zero unless both terms are the
  negative zero; \<open>x - y\<close> is \<open>x + (- y)\<close>.
\<close>

definition neg64 :: "float64 \<Rightarrow> float64" where
  "neg64 x = (case x of
       Fin q \<Rightarrow> if q = 0 then NegZero else Fin (- q)
     | NegZero \<Rightarrow> Fin 0 | PosInf \<Rightarrow> NegInf | NegInf \<Rightarrow> PosInf | NaN \<Rightarrow> NaN)"

definition add64 :: "float64 \<Rightarrow> float64 \<Rightarrow> float64" where
  "add64 x y =
     (if x = NaN \<or> y = NaN then NaN
      else if is_inf x then (if is_inf y \<and> x \<noteq> y then NaN else x)
      else if is_inf y then y
      else if x = NegZero \<and> y = NegZero then NegZero
      else round64 (val x + val y))"

definition sub64 :: "float64 \<Rightarrow> float64 \<Rightarrow> float64" where
  "sub64 x y = add64 x (neg64 y)"

definition mul64 :: "float64 \<Rightarrow> float64 \<Rightarrow> float64" where
  "mul64 x y =
     (if x = NaN \<or> y = NaN then NaN
      else if is_inf x \<or> is_inf y
        then (if is_zero x \<or> is_zero y then NaN
              else if negative x = negative y then PosInf else NegInf)
      else if is_zero x \<or> is_zero y
        then (if negative x = negative y then Fin 0 else NegZero)
      else round64 (val x * val y))"

definition div64 :: "float64 \<Rightarrow> float64 \<Rightarrow> float64" where
  "div64 x y =
     (if x = NaN \<or> y = NaN then NaN
      else if is_inf x
        then (if is_inf y then NaN else if negative x = negative y then PosInf else NegInf)
      else if is_inf y then (if negative x = negative y then Fin 0 else NegZero)
      else if is_zero y
        then (if is_zero x then NaN else if negative x = negative y then PosInf else NegInf)
      else if is_zero x then (if negative x = negative y then Fin 0 else NegZero)
      else round64 (val x / val y))"

text \<open>
  \<^verbatim>\<open>math.Pow\<close> documents its special cases in order, the first three being
  \<^verbatim>\<open>Pow(x, \<plusminus>0) = 1\<close> for any \<open>x\<close>, \<^verbatim>\<open>Pow(1, y) = 1\<close> for any \<open>y\<close> and \<^verbatim>\<open>Pow(x, 1) = x\<close>
  for any \<open>x\<close>. The special cases after these and the approximation routine of the
  general case are not modelled: the value is left unspecified there.
\<close>

definition Pow64 :: "float64 \<Rightarrow> float64 \<Rightarrow> float64" where
  "Pow64 x y = (if is_zero y \<or> x = Fin 1 then Fin 1 else if y = Fin 1 then x else undefined)"

text \<open>
  In \<open>E64\<close> the helper \<open>f2i\<close> is Go's conversion \<^verbatim>\<open>int(f)\<close>, which discards the fraction
  (truncation toward zero). When the truncated value does not fit the 64 bits of \<^verbatim>\<open>int\<close>,
  and for an infinity or a NaN, the language leaves the result to the implementation; it
  is left unspecified here.
\<close>

definition trunc64 :: "float64 \<Rightarrow> int" where
  "trunc64 x = (case x of
       Fin q \<Rightarrow> (let t = (if 0 \<le> q then \<lfloor>q\<rfloor> else \<lceil>q\<rceil>)
                in if - (2 ^ 63) \<le> t \<and> t < 2 ^ 63 then t else undefined)
     | NegZero \<Rightarrow> 0
     | _ \<Rightarrow> undefined)"

text \<open>
  In \<open>E64\<close> the categories convert to consecutive whole numbers from 0, in the order the
  two packages declare them; no theorem depends on the numbers.
\<close>

definition seinfeld_number :: "seinfeld_LandUseCategory \<Rightarrow> rat" where
  "seinfeld_number c = (case c of
     seinfeld_Evergreen \<Rightarrow> 0 | seinfeld_Deciduous \<Rightarrow> 1 | seinfeld_Grass \<Rightarrow> 2
   | seinfeld_Desert \<Rightarrow> 3 | seinfeld_Shrubs \<Rightarrow> 4)"

definition wesely1989_number :: "wesely1989_LandUseCategory \<Rightarrow> rat" where
  "wesely1989_number c = (case c of
     wesely1989_Urban \<Rightarrow> 0 | wesely1989_Agricultural \<Rightarrow> 1 | wesely1989_Range \<Rightarrow> 2
   | wesely1989_Deciduous \<Rightarrow> 3 | wesely1989_Coniferous \<Rightarrow> 4 | wesely1989_MixedForest \<Rightarrow> 5
   | wesely1989_Water \<Rightarrow> 6 | wesely1989_Barren \<Rightarrow> 7 | wesely1989_Wetland \<Rightarrow> 8
   | wesely1989_RangeAg \<Rightarrow> 9 | wesely1989_RockyShrubs \<Rightarrow> 10)"

text \<open>
  Modelled from the spec: the constant \<^verbatim>\<open>g\<close> of package inmap, which is missing, is the
  ``gravitational acceleration \<open>g\<close>''; in \<open>E64\<close> it is standard gravity, \<^verbatim>\<open>9.80665\<close>. A
  constant converts to the \<^verbatim>\<open>float64\<close> nearest to its exact value. The array library of
  \<open>E64\<close> panics on a call that does not fit the shape.
\<close>

definition E64 :: "float64 env" where
  "E64 = \<lparr>fadd = add64,
          fsub = sub64,
          fmul = mul64,
          fdiv = div64,
          math_Pow = Pow64,
          flit = round64,
          g = round64 (980665 / 100000),
          f2i = trunc64,
          seinfeld_float64 = (\<lambda>c. Fin (seinfeld_number c)),
          wesely1989_float64 = (\<lambda>c. Fin (wesely1989_number c)),
          Index1d_invalid = (\<lambda>shape idx. Inl LibraryPanic),
          AddDense_mismatch = (\<lambda>A B. Inl LibraryPanic)\<rparr>"

section \<open>Lemmas\<close>

subsection \<open>Lengths of the tables\<close>

lemma length_NLCDseinfeld: "length NLCDseinfeld = 40"
  by (simp add: NLCDseinfeld_def)

lemma length_NLCDwesely: "length NLCDwesely = 40"
  by (simp add: NLCDwesely_def)

lemma length_NLCDz0: "length (NLCDz0 E) = 40"
  by (simp add: NLCDz0_def NLCDz0_literals_def)

subsection \<open>Rounding to binary64\<close>

lemma pow2_pos: "0 < pow2 e"
  by (simp add: pow2_def)

lemma pow2_powi: "pow2 e = 2 powi e"
  by (simp add: pow2_def power_int_def field_simps)

lemma pow2_mono: "a \<le> b \<Longrightarrow> pow2 a \<le> pow2 b"
  by (simp add: pow2_powi power_int_increasing)

lemma pow2_strict: "a < b \<Longrightarrow> pow2 a < pow2 b"
  by (simp add: pow2_powi power_int_strict_increasing)

lemma pow2_le_iff: "pow2 a \<le> pow2 b \<longleftrightarrow> a \<le> b"
  by (metis pow2_mono pow2_strict linorder_not_less)

lemma pow2_less_iff: "pow2 a < pow2 b \<longleftrightarrow> a < b"
  by (metis pow2_mono pow2_strict linorder_not_less)

lemma nat_bounds:
  assumes "0 < a"
  shows "pow2 (int (floorlog 2 a) - 1) \<le> of_nat a \<and> (of_nat a :: rat) < pow2 (int (floorlog 2 a))"
proof -
  from floorlog_bounds[of a 2] assms
  have b: "2 ^ (floorlog 2 a - 1) \<le> a" "a < 2 ^ floorlog 2 a" by auto
  have pos: "0 < floorlog 2 a" using assms by (simp add: floorlog_def)
  have "pow2 (int (floorlog 2 a) - 1) = 2 ^ (floorlog 2 a - 1)"
    using pos by (simp add: pow2_def nat_diff_distrib')
  moreover have "(2::rat) ^ (floorlog 2 a - 1) \<le> of_nat a"
    using b(1) by (metis of_nat_le_iff of_nat_numeral of_nat_power)
  moreover have "pow2 (int (floorlog 2 a)) = 2 ^ floorlog 2 a"
    by (simp add: pow2_def)
  moreover have "(of_nat a :: rat) < 2 ^ floorlog 2 a"
    using b(2) by (metis of_nat_less_iff of_nat_numeral of_nat_power)
  ultimately show ?thesis by simp
qed

lemma pow2_add: "pow2 (a + b) = pow2 a * pow2 b"
  by (simp add: pow2_powi power_int_add)

lemma pow2_diff: "pow2 (a - b) = pow2 a / pow2 b"
  by (simp add: pow2_powi power_int_diff)

lemma binade_eqI:
  assumes lo: "pow2 e \<le> \<bar>q\<bar>" and hi: "\<bar>q\<bar> < pow2 (e + 1)"
  shows "binade q = e"
proof -
  obtain a b where ab: "quotient_of \<bar>q\<bar> = (a, b)" by (cases "quotient_of \<bar>q\<bar>")
  have bpos: "0 < b" using ab quotient_of_denom_pos by blast
  have qpos: "0 < \<bar>q\<bar>" using lo pow2_pos[of e] by linarith
  have qeq: "\<bar>q\<bar> = of_int a / of_int b" using ab quotient_of_div by blast
  have apos: "0 < a" using qpos qeq bpos by (simp add: zero_less_divide_iff)
  define la where "la = int (floorlog 2 (nat a))"
  define lb where "lb = int (floorlog 2 (nat b))"
  have A: "pow2 (la - 1) \<le> of_int a" "(of_int a :: rat) < pow2 la"
    using nat_bounds[of "nat a"] apos by (simp_all add: la_def)
  have B: "pow2 (lb - 1) \<le> of_int b" "(of_int b :: rat) < pow2 lb"
    using nat_bounds[of "nat b"] bpos by (simp_all add: lb_def)
  have bq: "(0::rat) < of_int b" using bpos by simp
  have up: "\<bar>q\<bar> < pow2 (la - lb + 1)"
  proof -
    have "of_int a / of_int b < pow2 la / pow2 (lb - 1)"
      using A(2) B(1) bq pow2_pos[of "lb - 1"] apos
      by (intro frac_less) auto
    also have "\<dots> = pow2 (la - lb + 1)"
      using pow2_diff[of la "lb - 1"] by (simp add: algebra_simps)
    finally show ?thesis by (simp add: qeq)
  qed
  have low: "pow2 (la - lb - 1) < \<bar>q\<bar>"
  proof -
    have "pow2 (la - 1) / pow2 lb < of_int a / of_int b"
      using A(1) B(2) bq pow2_pos[of "la - 1"] 
      by (intro frac_less2) (auto simp: less_imp_le)
    moreover have "pow2 (la - 1) / pow2 lb = pow2 (la - lb - 1)"
      using pow2_diff[of "la - 1" lb] by (simp add: algebra_simps)
    ultimately show ?thesis by (simp add: qeq)
  qed
  have "pow2 e < pow2 (la - lb + 1)" using lo up by linarith
  then have e1: "e \<le> la - lb" by (simp add: pow2_less_iff)
  have "pow2 (la - lb - 1) < pow2 (e + 1)" using low hi by linarith
  then have e2: "la - lb \<le> e + 1" by (simp add: pow2_less_iff)
  show ?thesis
  proof (cases "la - lb = e")
    case True
    then show ?thesis using lo by (simp add: binade_def ab la_def lb_def Let_def)
  next
    case False
    then have d: "la - lb = e + 1" using e1 e2 by linarith
    then show ?thesis using hi by (simp add: binade_def ab la_def lb_def Let_def)
  qed
qed

lemma nearest64_eqI:
  assumes "pow2 e \<le> \<bar>q\<bar>" "\<bar>q\<bar> < pow2 (e + 1)" "- 1022 \<le> e"
  shows "nearest64 q = of_int (round_half_even (q / pow2 (e - 52))) * pow2 (e - 52)"
proof -
  have "q \<noteq> 0" using assms(1) pow2_pos[of e] by auto
  moreover have "binade q = e" using assms by (intro binade_eqI)
  moreover have "max (e - 52) (- 1074) = e - 52" using assms(3) by simp
  ultimately show ?thesis by (simp add: nearest64_def Let_def)
qed

lemma floor_rat_numeral_div:
  "\<lfloor>(numeral a :: rat) / numeral b\<rfloor> = numeral a div numeral b"
  by (metis floor_divide_of_int_eq of_int_numeral)



lemma nearest64_tie_down: "nearest64 (2 ^ 53 + 1) = 2 ^ 53"
  using nearest64_eqI[of 53 "2 ^ 53 + 1"]
  by (simp add: pow2_def round_half_even_def Let_def floor_rat_numeral_div)

lemma nearest64_tie_up: "nearest64 (2 ^ 53 + 3) = 2 ^ 53 + 4"
  using nearest64_eqI[of 53 "2 ^ 53 + 3"]
  by (simp add: pow2_def round_half_even_def Let_def floor_rat_numeral_div)


lemma nearest64_1: "nearest64 1 = 1"
  using nearest64_eqI[of 0 1] by (simp add: pow2_def round_half_even_def Let_def)

lemma nearest64_300: "nearest64 300 = 300"
  using nearest64_eqI[of 8 300] by (simp add: pow2_def round_half_even_def Let_def)

lemma nearest64_101300: "nearest64 101300 = 101300"
  using nearest64_eqI[of 16 101300] by (simp add: pow2_def round_half_even_def Let_def)

text \<open>The range: a rounded value of modest size is finite.\<close>

lemma MaxFloat64_large: "2 ^ 64 \<le> MaxFloat64"
  by (simp add: MaxFloat64_def)

lemma round64_Fin:
  assumes "nearest64 q = r" and "\<bar>r\<bar> \<le> 2 ^ 64" and "r = 0 \<longrightarrow> 0 \<le> q"
  shows "round64 q = Fin r"
proof -
  have "\<bar>r\<bar> \<le> MaxFloat64" using assms(2) MaxFloat64_large by linarith
  then have "\<not> MaxFloat64 < r" "\<not> r < - MaxFloat64" by linarith+
  then show ?thesis using assms(1,3) by (auto simp: round64_def Let_def)
qed


lemma round64_1: "round64 1 = Fin 1"
  by (rule round64_Fin) (simp_all add: nearest64_1)

lemma round64_300: "round64 300 = Fin 300"
  by (rule round64_Fin) (simp_all add: nearest64_300)

lemma round64_101300: "round64 101300 = Fin 101300"
  by (rule round64_Fin) (simp_all add: nearest64_101300)





subsection \<open>Loops\<close>

lemma pbind_Inr: "pbind (Inr a) k = k a"
  by (simp add: pbind_def)

lemma pbind_Inl: "pbind (Inl x) k = Inl x"
  by (simp add: pbind_def)

lemma for_each_append:
  "for_each body (xs @ ys) a = pbind (for_each body xs a) (for_each body ys)"
  by (induction xs arbitrary: a) (auto simp: pbind_def split: sum.splits)

lemma for_each_map:
  "for_each body (map f xs) a = for_each (\<lambda>x. body (f x)) xs a"
  by (induction xs arbitrary: a) (auto split: sum.splits)

lemma for_each_cong_set:
  "(\<And>x a. x \<in> set xs \<Longrightarrow> body x a = body' x a) \<Longrightarrow> for_each body xs a = for_each body' xs a"
  by (induction xs arbitrary: a) (auto split: sum.splits)

lemma for_each_nested:
  "for_each (\<lambda>j. for_each (body j) (inner j)) js a
   = for_each (\<lambda>(j, i). body j i) (concat (map (\<lambda>j. map (Pair j) (inner j)) js)) a"
proof (induction js arbitrary: a)
  case Nil
  then show ?case by simp
next
  case (Cons j js)
  have "for_each (\<lambda>(j, i). body j i) (map (Pair j) (inner j)) a = for_each (body j) (inner j) a"
    by (simp add: for_each_map)
  then show ?case
    using Cons.IH by (simp add: for_each_append pbind_def split: sum.splits)
qed

lemma for_each_ok:
  assumes "\<And>k x. k \<in> set ks \<Longrightarrow> I x \<Longrightarrow> body k x = Inr (upd k x) \<and> I (upd k x)"
    and "I a"
  shows "for_each body ks a = Inr (fold upd ks a) \<and> I (fold upd ks a)"
  using assms
proof (induction ks arbitrary: a)
  case Nil
  then show ?case by simp
next
  case (Cons k ks)
  have step: "body k a = Inr (upd k a)" "I (upd k a)"
    using Cons.prems(1)[of k a] Cons.prems(2) by simp_all
  have "for_each body ks (upd k a) = Inr (fold upd ks (upd k a)) \<and> I (fold upd ks (upd k a))"
    using Cons.prems(1) step(2) by (intro Cons.IH) simp_all
  then show ?case using step(1) by simp
qed

lemma for_each_panics:
  assumes "\<And>k x. k \<in> set ks \<Longrightarrow> I x \<Longrightarrow> body k x = Inl e \<or> (\<exists>x'. body k x = Inr x' \<and> I x')"
    and "k0 \<in> set ks"
    and "\<And>x. I x \<Longrightarrow> body k0 x = Inl e"
    and "I a"
  shows "for_each body ks a = Inl e"
  using assms
proof (induction ks arbitrary: a)
  case Nil
  then show ?case by simp
next
  case (Cons k ks)
  show ?case
  proof (cases "body k a")
    case (Inl x)
    then have "x = e" using Cons.prems(1)[of k a] Cons.prems(4) by auto
    then show ?thesis using Inl by simp
  next
    case (Inr a')
    then have I': "I a'" using Cons.prems(1)[of k a] Cons.prems(4) by auto
    have "k0 \<noteq> k" using Inr Cons.prems(3)[OF Cons.prems(4)] by auto
    then have "k0 \<in> set ks" using Cons.prems(2) by simp
    then have "for_each body ks a' = Inl e"
      using Cons.prems(1) Cons.prems(3) I' by (intro Cons.IH) simp_all
    then show ?thesis using Inr by simp
  qed
qed

subsection \<open>Folding updates into a list\<close>

lemma length_fold_update:
  "length (fold (\<lambda>k l. l[pos k := v k]) ks l) = length l"
  by (induction ks arbitrary: l) simp_all

lemma fold_update_other:
  "p \<notin> pos ` set ks \<Longrightarrow> fold (\<lambda>k l. l[pos k := v k]) ks l ! p = l ! p"
  by (induction ks arbitrary: l) simp_all

lemma fold_update_nth:
  assumes "distinct (map pos ks)" "k \<in> set ks" "pos k < length l"
  shows "fold (\<lambda>k l. l[pos k := v k]) ks l ! pos k = v k"
  using assms
proof (induction ks arbitrary: l)
  case Nil
  then show ?case by simp
next
  case (Cons a ks)
  show ?case
  proof (cases "k \<in> set ks")
    case True
    then show ?thesis using Cons by simp
  next
    case False
    then have ka: "k = a" using Cons.prems(2) by simp
    have "pos a \<notin> pos ` set ks" using Cons.prems(1) by simp
    then show ?thesis using Cons.prems(3) ka by (simp add: fold_update_other)
  qed
qed

subsection \<open>Row-major positions\<close>

lemma flat_index_less:
  "list_all2 (<) idx shape \<Longrightarrow> flat_index shape idx < prod_list shape"
proof (induction idx shape rule: list_all2_induct)
  case Nil
  then show ?case by simp
next
  case (Cons i js n ns)
  have "i * prod_list ns + flat_index ns js < i * prod_list ns + prod_list ns"
    using Cons.IH by simp
  also have "\<dots> = Suc i * prod_list ns" by simp
  also have "\<dots> \<le> n * prod_list ns"
    using Cons.hyps(1) by (intro mult_le_mono1) simp
  finally show ?case by simp
qed

lemma flat_index_inj:
  "list_all2 (<) idx shape \<Longrightarrow> list_all2 (<) idx' shape
   \<Longrightarrow> flat_index shape idx = flat_index shape idx' \<Longrightarrow> idx = idx'"
proof (induction idx shape arbitrary: idx' rule: list_all2_induct)
  case Nil
  then show ?case by simp
next
  case (Cons i js n ns)
  from Cons.prems(1) obtain i' js' where idx': "idx' = i' # js'" "i' < n" "list_all2 (<) js' ns"
    by (cases idx') auto
  let ?P = "prod_list ns"
  have f: "flat_index ns js < ?P" "flat_index ns js' < ?P"
    using Cons.hyps(2) idx'(3) by (simp_all add: flat_index_less)
  have eq: "i * ?P + flat_index ns js = i' * ?P + flat_index ns js'"
    using Cons.prems(2) idx'(1) by simp
  have "(i * ?P + flat_index ns js) div ?P = i" "(i' * ?P + flat_index ns js') div ?P = i'"
    using f by simp_all
  then have ii: "i = i'" using eq by simp
  then have "flat_index ns js = flat_index ns js'" using eq by simp
  then have "js = js'" using Cons.IH idx'(3) by blast
  then show ?case using ii idx'(1) by simp
qed

subsection \<open>Arrays\<close>

lemma Get_valid:
  "list_all2 (<) idx (Shape A) \<Longrightarrow> wf_array A \<Longrightarrow> DenseArray_Get E A idx = Inr (cell A idx)"
  using flat_index_less[of idx "Shape A"]
  by (simp add: DenseArray_Get_def Index1d_def wf_array_def cell_def)

lemma Set_valid:
  "list_all2 (<) idx (Shape A) \<Longrightarrow> wf_array A
   \<Longrightarrow> DenseArray_Set E A v idx = Inr (A\<lparr>Elements := (Elements A)[flat_index (Shape A) idx := v]\<rparr>)"
  using flat_index_less[of idx "Shape A"]
  by (simp add: DenseArray_Set_def Index1d_def wf_array_def)

lemma wf_ZerosDense: "wf_array (ZerosDense E dims)"
  by (simp add: wf_array_def ZerosDense_def)

lemma Shape_ZerosDense: "Shape (ZerosDense E dims) = dims"
  by (simp add: ZerosDense_def)

lemma Elements_fold_update:
  "Elements (fold (\<lambda>k x. x\<lparr>Elements := (Elements x)[pos k := v k]\<rparr>) ks A)
   = fold (\<lambda>k l. l[pos k := v k]) ks (Elements A)"
  by (induction ks arbitrary: A) simp_all

lemma Shape_fold_update:
  "Shape (fold (\<lambda>k x. x\<lparr>Elements := (Elements x)[pos k := v k]\<rparr>) ks A) = Shape A"
  by (induction ks arbitrary: A) simp_all

lemma for_each_product:
  "for_each (\<lambda>j. for_each (body j) js) ks a
   = for_each (\<lambda>(k, j). body k j) (List.product ks js) a"
  using for_each_nested[of body "\<lambda>_. js" ks a] by (simp add: product_concat_map)

subsection \<open>Layer height\<close>





subsection \<open>Pulling a producer\<close>

text \<open>The accessors are the combinators applied to the raw producers of their variables.\<close>

lemma accessor_wiring:
  "WRFCmaq_Height E rd = Height_pull E (rd ''PH'') (rd ''PHB'')"
  "WRFCmaq_P E rd = cmaqPressureConvert E (rd ''P'') (rd ''PB'')"
  "WRFCmaq_T E rd = cmaqTemperatureConvert E (rd ''T'') (cmaqPressureConvert E (rd ''P'') (rd ''PB''))"
  "WRFCmaq_RadiationDown E rd = cmaqRadiationDown E (rd ''SWDOWN'') (rd ''GLW'')"
  "WRFCmaq_SeinfeldLandUse E rd = cmaqSeinfeldLandUse E (rd ''LU_INDEX'')"
  "WRFCmaq_WeselyLandUse E rd = cmaqWeselyLandUse E (rd ''LU_INDEX'')"
  "WRFCmaq_Z0 E rd = cmaqZ0 E (rd ''LU_INDEX'')"
  by (simp_all add: WRFCmaq_Height_def WRFCmaq_P_def WRFCmaq_T_def WRFCmaq_RadiationDown_def
      WRFCmaq_SeinfeldLandUse_def WRFCmaq_WeselyLandUse_def WRFCmaq_Z0_def Let_def)

lemma pull_Ok: "f s = (Ok A, s1) \<Longrightarrow> pull f s k = k A s1"
  by (simp add: pull_def)

lemma pull_Err: "f s = (Err e, s1) \<Longrightarrow> pull f s k = (Err e, s1)"
  by (simp add: pull_def)

lemma pull_Panic: "f s = (Panic x, s1) \<Longrightarrow> pull f s k = (Panic x, s1)"
  by (simp add: pull_def)

subsection \<open>Some binary64 operations\<close>



lemma E64_fmul: "fmul E64 = mul64"
  by (simp add: E64_def)


lemma add64_Fin: "add64 (Fin a) (Fin b) = round64 (a + b)"
  by (simp add: add64_def is_inf_def val_def)


lemma mul64_Fin: "a \<noteq> 0 \<Longrightarrow> b \<noteq> 0 \<Longrightarrow> mul64 (Fin a) (Fin b) = round64 (a * b)"
  by (simp add: mul64_def is_inf_def is_zero_def val_def)

lemma div64_Fin: "a \<noteq> 0 \<Longrightarrow> b \<noteq> 0 \<Longrightarrow> div64 (Fin a) (Fin b) = round64 (a / b)"
  by (simp add: div64_def is_inf_def is_zero_def val_def)










subsection \<open>The height of layer 0 in binary64\<close>

















subsection \<open>Loops over the elements of an array\<close>

lemma for_each_enumerate_ok:
  fixes T :: "'f DenseArray"
  assumes step: "\<And>i (x::'f DenseArray). i < length xs \<Longrightarrow> length (Elements x) = length xs
                  \<Longrightarrow> body (i, xs ! i) x = Inr (x\<lparr>Elements := (Elements x)[i := v i]\<rparr>)"
    and len: "length (Elements T) = length xs"
  shows "for_each body (enumerate 0 xs) T = Inr (T\<lparr>Elements := map v [0..<length xs]\<rparr>)"
proof -
  let ?ks = "enumerate 0 xs"
  let ?upd = "\<lambda>t (x::'f DenseArray). x\<lparr>Elements := (Elements x)[fst t := v (fst t)]\<rparr>"
  let ?I = "\<lambda>x::'f DenseArray. length (Elements x) = length xs"
  have st: "\<And>t x. t \<in> set ?ks \<Longrightarrow> ?I x \<Longrightarrow> body t x = Inr (?upd t x) \<and> ?I (?upd t x)"
  proof -
    fix t x
    assume t: "t \<in> set ?ks" and I: "?I x"
    obtain i a where ti: "t = (i, a)" by (cases t)
    have "i < length xs" "a = xs ! i" using t ti by (auto simp: in_set_enumerate_eq)
    then show "body t x = Inr (?upd t x) \<and> ?I (?upd t x)"
      using step[of i x] I ti by simp
  qed
  have run: "for_each body ?ks T = Inr (fold ?upd ?ks T) \<and> ?I (fold ?upd ?ks T)"
    by (rule for_each_ok[where I = ?I and upd = ?upd, OF st len])
  let ?R = "fold ?upd ?ks T"
  have els: "Elements ?R = fold (\<lambda>t l. l[fst t := v (fst t)]) ?ks (Elements T)"
    by (rule Elements_fold_update)
  have sh: "Shape ?R = Shape T"
    by (rule Shape_fold_update)
  have "Elements ?R = map v [0..<length xs]"
  proof (rule nth_equalityI)
    show "length (Elements ?R) = length (map v [0..<length xs])"
      using run by simp
  next
    fix i assume "i < length (Elements ?R)"
    then have i: "i < length xs" using run by simp
    have mem: "(i, xs ! i) \<in> set ?ks" using i by (simp add: in_set_enumerate_eq)
    have d: "distinct (map fst ?ks)" by simp
    have "fold (\<lambda>t l. l[fst t := v (fst t)]) ?ks (Elements T) ! fst (i, xs ! i) = v (fst (i, xs ! i))"
      using i len by (intro fold_update_nth[OF d mem]) simp
    then show "Elements ?R ! i = map v [0..<length xs] ! i"
      using els i by simp
  qed
  then have "?R = T\<lparr>Elements := map v [0..<length xs]\<rparr>"
    using sh by (intro DenseArray.equality) simp_all
  then show ?thesis using run by simp
qed

lemma map_nth_zip:
  "length xs \<le> length ys \<Longrightarrow> map (\<lambda>i. f (xs ! i) (ys ! i)) [0..<length xs] = map2 f xs ys"
  by (rule nth_equalityI) simp_all

lemma slice_at_nat:
  "slice_at xs (int i) = (if i < length xs then Inr (xs ! i) else Inl IndexOutOfRange)"
  by (simp add: slice_at_def)

subsection \<open>Temperature\<close>

lemma temperature_loop_ok:
  fixes E :: "'f env"
  assumes "length (Elements th) \<le> length (Elements p)" and "wf_array th"
  shows "for_each (temperature_cell E p) (enumerate 0 (Elements th)) (ZerosDense E (Shape th))
         = Inr \<lparr>Elements = map2 (thetaPerturbToTemperature E) (Elements th) (Elements p),
                Shape = Shape th\<rparr>"
proof -
  let ?v = "\<lambda>i. thetaPerturbToTemperature E (Elements th ! i) (Elements p ! i)"
  have len: "length (Elements (ZerosDense E (Shape th))) = length (Elements th)"
    using assms(2) by (simp add: ZerosDense_def wf_array_def)
  have step: "\<And>i (x::'f DenseArray). i < length (Elements th)
        \<Longrightarrow> length (Elements x) = length (Elements th)
        \<Longrightarrow> temperature_cell E p (i, Elements th ! i) x = Inr (x\<lparr>Elements := (Elements x)[i := ?v i]\<rparr>)"
    using assms(1) by (simp add: temperature_cell_def slice_at_nat slice_set_def pbind_Inr)
  have "for_each (temperature_cell E p) (enumerate 0 (Elements th)) (ZerosDense E (Shape th))
        = Inr ((ZerosDense E (Shape th))\<lparr>Elements := map ?v [0..<length (Elements th)]\<rparr>)"
    by (rule for_each_enumerate_ok[OF step len])
  then show ?thesis
    using assms(1) by (simp add: map_nth_zip ZerosDense_def)
qed

lemma temperature_loop_panics:
  fixes E :: "'f env"
  assumes "length (Elements p) < length (Elements th)" and "wf_array th"
  shows "for_each (temperature_cell E p) (enumerate 0 (Elements th)) (ZerosDense E (Shape th))
         = Inl IndexOutOfRange"
proof -
  let ?I = "\<lambda>x::'f DenseArray. length (Elements x) = length (Elements th)"
  let ?k0 = "(length (Elements p), Elements th ! length (Elements p))"
  have mem: "?k0 \<in> set (enumerate 0 (Elements th))"
    using assms(1) by (simp add: in_set_enumerate_eq)
  have all: "\<And>t x. t \<in> set (enumerate 0 (Elements th)) \<Longrightarrow> ?I x
      \<Longrightarrow> temperature_cell E p t x = Inl IndexOutOfRange
          \<or> (\<exists>x'. temperature_cell E p t x = Inr x' \<and> ?I x')"
    by (auto simp: temperature_cell_def slice_at_nat slice_set_def pbind_def in_set_enumerate_eq)
  have bad: "\<And>x. ?I x \<Longrightarrow> temperature_cell E p ?k0 x = Inl IndexOutOfRange"
    by (simp add: temperature_cell_def slice_at_nat pbind_Inl)
  have I0: "?I (ZerosDense E (Shape th))"
    using assms(2) by (simp add: ZerosDense_def wf_array_def)
  show ?thesis
    by (rule for_each_panics[where I = ?I and body = "temperature_cell E p"
          and e = IndexOutOfRange, OF all mem bad I0])
qed

lemma temperature_at_reference: "thetaPerturbToTemperature E64 (Fin 0) (Fin 101300) = Fin 300"
proof -
  have "div64 (Fin 101300) (Fin 101300) = Fin 1"
    by (simp add: div64_Fin round64_1)
  moreover have "add64 (Fin 0) (Fin 300) = Fin 300"
    by (simp add: add64_Fin round64_300)
  moreover have "mul64 (Fin 300) (Fin 1) = Fin 300"
    by (simp add: mul64_Fin round64_300)
  ultimately show ?thesis
    by (simp add: thetaPerturbToTemperature_def E64_def Let_def Pow64_def
        round64_300 round64_101300)
qed

subsection \<open>Pressure and radiation\<close>

lemma lift_Inr: "lift (Inr a) = Ok a"
  by (simp add: lift_def)

lemma lift_Inl: "lift (Inl x) = Panic x"
  by (simp add: lift_def)

lemma lift_not_Err: "lift m \<noteq> Err e"
  by (simp add: lift_def split: sum.splits)

lemma AddDense_same_shape:
  "Shape B = Shape A \<Longrightarrow> wf_array A \<Longrightarrow> wf_array B
   \<Longrightarrow> DenseArray_AddDense E (DenseArray_Copy A) B
       = Inr \<lparr>Elements = map2 (fadd E) (Elements A) (Elements B), Shape = Shape A\<rparr>"
  by (simp add: DenseArray_AddDense_def DenseArray_Copy_def wf_array_def)

lemma E64_fadd_commute: "fadd E64 x y = fadd E64 y x"
  by (auto simp: E64_def add64_def is_inf_def add.commute)

subsection \<open>Loops over the rows and columns of an array\<close>

lemma pairs_distinct_pos:
  "distinct (map (\<lambda>(j, i). flat_index [n0, n1] [j, i]) (List.product [0..<n0] [0..<n1]))"
proof -
  have "inj_on (\<lambda>(j, i). flat_index [n0, n1] [j, i]) (set (List.product [0..<n0] [0..<n1]))"
  proof (rule inj_onI)
    fix x y
    assume x: "x \<in> set (List.product [0..<n0] [0..<n1])"
      and y: "y \<in> set (List.product [0..<n0] [0..<n1])"
      and eq: "(case x of (j, i) \<Rightarrow> flat_index [n0, n1] [j, i])
             = (case y of (j, i) \<Rightarrow> flat_index [n0, n1] [j, i])"
    obtain j i where xx: "x = (j, i)" by (cases x)
    obtain j' i' where yy: "y = (j', i')" by (cases y)
    have vx: "list_all2 (<) [j, i] [n0, n1]" using x xx by simp
    have vy: "list_all2 (<) [j', i'] [n0, n1]" using y yy by simp
    have "flat_index [n0, n1] [j, i] = flat_index [n0, n1] [j', i']"
      using eq xx yy by simp
    then have "[j, i] = [j', i']" using flat_index_inj[OF vx vy] by blast
    then show "x = y" using xx yy by simp
  qed
  moreover have "distinct (List.product [0..<n0] [0..<n1])"
    by (simp add: distinct_product)
  ultimately show ?thesis by (simp add: distinct_map)
qed

lemma rows_columns_ok:
  fixes E :: "'f env" and body :: "nat \<Rightarrow> nat \<Rightarrow> 'f DenseArray \<Rightarrow> panic + 'f DenseArray"
  assumes step: "\<And>j i (x::'f DenseArray). j < n0 \<Longrightarrow> i < n1 \<Longrightarrow> Shape x = [n0, n1] \<Longrightarrow> wf_array x
      \<Longrightarrow> body j i x = Inr (x\<lparr>Elements := (Elements x)[flat_index [n0, n1] [j, i] := v j i]\<rparr>)"
  shows "for_each (\<lambda>j. for_each (body j) [0..<n1]) [0..<n0] (ZerosDense E [n0, n1])
         = Inr \<lparr>Elements = map (\<lambda>n. v (n div n1) (n mod n1)) [0..<n0 * n1], Shape = [n0, n1]\<rparr>"
proof -
  let ?ks = "List.product [0..<n0] [0..<n1]"
  let ?pos = "\<lambda>(j, i). flat_index [n0, n1] [j, i]"
  let ?val = "\<lambda>(j, i). v j i"
  let ?upd = "\<lambda>t (x::'f DenseArray). x\<lparr>Elements := (Elements x)[?pos t := ?val t]\<rparr>"
  let ?I = "\<lambda>x::'f DenseArray. Shape x = [n0, n1] \<and> wf_array x"
  let ?Z = "ZerosDense E [n0, n1]"
  have st: "\<And>t x. t \<in> set ?ks \<Longrightarrow> ?I x
      \<Longrightarrow> (case t of (j, i) \<Rightarrow> body j i) x = Inr (?upd t x) \<and> ?I (?upd t x)"
  proof -
    fix t x
    assume t: "t \<in> set ?ks" and I: "?I x"
    obtain j i where tt: "t = (j, i)" by (cases t)
    have b: "j < n0" "i < n1" using t tt by simp_all
    have "body j i x = Inr (?upd (j, i) x)" using step[OF b] I by simp
    moreover have "?I (?upd (j, i) x)" using I by (simp add: wf_array_def)
    ultimately show "(case t of (j, i) \<Rightarrow> body j i) x = Inr (?upd t x) \<and> ?I (?upd t x)"
      using tt by simp
  qed
  have I0: "?I ?Z" by (simp add: wf_ZerosDense Shape_ZerosDense)
  have run: "for_each (\<lambda>(j, i). body j i) ?ks ?Z = Inr (fold ?upd ?ks ?Z) \<and> ?I (fold ?upd ?ks ?Z)"
    by (rule for_each_ok[where I = ?I and upd = ?upd, OF st I0])
  let ?H = "fold ?upd ?ks ?Z"
  have els: "Elements ?H = fold (\<lambda>t l. l[?pos t := ?val t]) ?ks (Elements ?Z)"
    by (rule Elements_fold_update)
  have len: "length (Elements ?H) = n0 * n1"
    using run by (simp add: wf_array_def)
  have "Elements ?H = map (\<lambda>n. v (n div n1) (n mod n1)) [0..<n0 * n1]"
  proof (rule nth_equalityI)
    show "length (Elements ?H) = length (map (\<lambda>n. v (n div n1) (n mod n1)) [0..<n0 * n1])"
      using len by simp
  next
    fix n assume "n < length (Elements ?H)"
    then have n: "n < n0 * n1" using len by simp
    then have n1: "0 < n1" by (cases n1) simp_all
    have j: "n div n1 < n0" using n by (simp add: less_mult_imp_div_less mult.commute)
    have i: "n mod n1 < n1" using n1 by simp
    have p: "flat_index [n0, n1] [n div n1, n mod n1] = n" by simp
    have mem: "(n div n1, n mod n1) \<in> set ?ks" using i j by simp
    have lt: "?pos (n div n1, n mod n1) < length (Elements ?Z)"
      using n p by (simp add: ZerosDense_def)
    have "fold (\<lambda>t l. l[?pos t := ?val t]) ?ks (Elements ?Z) ! ?pos (n div n1, n mod n1)
          = ?val (n div n1, n mod n1)"
      by (rule fold_update_nth[OF pairs_distinct_pos mem lt])
    then show "Elements ?H ! n = map (\<lambda>n. v (n div n1) (n mod n1)) [0..<n0 * n1] ! n"
      using els p n by simp
  qed
  moreover have "Shape ?H = [n0, n1]" using run by simp
  ultimately have "?H = \<lparr>Elements = map (\<lambda>n. v (n div n1) (n mod n1)) [0..<n0 * n1], Shape = [n0, n1]\<rparr>"
    by (intro DenseArray.equality) simp_all
  then show ?thesis using run by (simp add: for_each_product)
qed

lemma rows_columns_panics:
  fixes E :: "'f env" and body :: "nat \<Rightarrow> nat \<Rightarrow> 'f DenseArray \<Rightarrow> panic + 'f DenseArray"
  assumes step: "\<And>j i (x::'f DenseArray). j < n0 \<Longrightarrow> i < n1 \<Longrightarrow> Shape x = [n0, n1] \<Longrightarrow> wf_array x
      \<Longrightarrow> body j i x = Inl e
          \<or> body j i x = Inr (x\<lparr>Elements := (Elements x)[flat_index [n0, n1] [j, i] := v j i]\<rparr>)"
    and bad: "\<And>x::'f DenseArray. Shape x = [n0, n1] \<Longrightarrow> wf_array x \<Longrightarrow> body j0 i0 x = Inl e"
    and j0: "j0 < n0" and i0: "i0 < n1"
  shows "for_each (\<lambda>j. for_each (body j) [0..<n1]) [0..<n0] (ZerosDense E [n0, n1]) = Inl e"
proof -
  let ?ks = "List.product [0..<n0] [0..<n1]"
  let ?I = "\<lambda>x::'f DenseArray. Shape x = [n0, n1] \<and> wf_array x"
  let ?Z = "ZerosDense E [n0, n1]"
  have all: "\<And>t x. t \<in> set ?ks \<Longrightarrow> ?I x
      \<Longrightarrow> (case t of (j, i) \<Rightarrow> body j i) x = Inl e
          \<or> (\<exists>x'. (case t of (j, i) \<Rightarrow> body j i) x = Inr x' \<and> ?I x')"
  proof -
    fix t x
    assume t: "t \<in> set ?ks" and I: "?I x"
    obtain j i where tt: "t = (j, i)" by (cases t)
    have b: "j < n0" "i < n1" using t tt by simp_all
    from step[OF b] I
    have "body j i x = Inl e
          \<or> body j i x = Inr (x\<lparr>Elements := (Elements x)[flat_index [n0, n1] [j, i] := v j i]\<rparr>)"
      by simp
    moreover have "?I (x\<lparr>Elements := (Elements x)[flat_index [n0, n1] [j, i] := v j i]\<rparr>)"
      using I by (simp add: wf_array_def)
    ultimately show "(case t of (j, i) \<Rightarrow> body j i) x = Inl e
          \<or> (\<exists>x'. (case t of (j, i) \<Rightarrow> body j i) x = Inr x' \<and> ?I x')"
      using tt by auto
  qed
  have mem: "(j0, i0) \<in> set ?ks" using j0 i0 by simp
  have bad': "\<And>x. ?I x \<Longrightarrow> (case (j0, i0) of (j, i) \<Rightarrow> body j i) x = Inl e"
    using bad by simp
  have I0: "?I ?Z" by (simp add: wf_ZerosDense Shape_ZerosDense)
  have "for_each (\<lambda>(j, i). body j i) ?ks ?Z = Inl e"
    by (rule for_each_panics[where I = ?I and body = "\<lambda>(j, i). body j i" and e = e,
          OF all mem bad' I0])
  then show ?thesis by (simp add: for_each_product)
qed

subsection \<open>Land-use remapping\<close>

lemma table_lookup:
  "length table \<le> 40 \<Longrightarrow>
   slice_at table (int_sub1 c)
   = (if code_in_range table c then Inr (table ! nat (c - 1)) else Inl IndexOutOfRange)"
  by (auto simp: slice_at_def int_sub1_def code_in_range_def)

lemma remap_cell_expr:
  fixes E :: "'f env"
  assumes "Shape lu = [n0, n1]" "wf_array lu" "Shape x = [n0, n1]" "wf_array x"
    and "j < n0" "i < n1" "length table \<le> 40"
  shows "pbind (DenseArray_Get E lu [j, i]) (\<lambda>v.
         pbind (slice_at table (int_sub1 (f2i E v))) (\<lambda>c.
           DenseArray_Set E x (conv c) [j, i]))
         = (if code_in_range table (f2i E (cell lu [j, i]))
            then Inr (x\<lparr>Elements := (Elements x)[flat_index [n0, n1] [j, i]
                         := conv (table ! nat (f2i E (cell lu [j, i]) - 1))]\<rparr>)
            else Inl IndexOutOfRange)"
proof -
  have v: "list_all2 (<) [j, i] [n0, n1]" using assms(5,6) by simp
  show ?thesis
    using v assms(1-4,7)
    by (simp add: Get_valid Set_valid pbind_Inr pbind_Inl table_lookup)
qed

lemma cell_in_set:
  assumes "Shape lu = [n0, n1]" "wf_array lu" "j < n0" "i < n1"
  shows "cell lu [j, i] \<in> set (Elements lu)"
proof -
  have "list_all2 (<) [j, i] (Shape lu)" using assms by simp
  then have "flat_index (Shape lu) [j, i] < length (Elements lu)"
    using flat_index_less[of "[j, i]" "Shape lu"] assms(2) by (simp add: wf_array_def)
  then show ?thesis by (simp add: cell_def)
qed

lemma remap_rows_columns_ok:
  fixes E :: "'f env" and body :: "nat \<Rightarrow> nat \<Rightarrow> 'f DenseArray \<Rightarrow> panic + 'f DenseArray"
  assumes body: "\<And>j i x. body j i x
        = pbind (DenseArray_Get E lu [j, i]) (\<lambda>v.
          pbind (slice_at table (int_sub1 (f2i E v))) (\<lambda>c.
            DenseArray_Set E x (conv c) [j, i]))"
    and sh: "Shape lu = [n0, n1]" and wf: "wf_array lu" and len: "length table \<le> 40"
    and ok: "\<forall>v\<in>set (Elements lu). code_in_range table (f2i E v)"
  shows "for_each (\<lambda>j. for_each (body j) [0..<n1]) [0..<n0] (ZerosDense E [n0, n1])
         = Inr \<lparr>Elements = map (\<lambda>v. conv (table ! nat (f2i E v - 1))) (Elements lu),
                Shape = [n0, n1]\<rparr>"
proof -
  let ?v = "\<lambda>j i. conv (table ! nat (f2i E (cell lu [j, i]) - 1))"
  have step: "\<And>j i (x::'f DenseArray). j < n0 \<Longrightarrow> i < n1 \<Longrightarrow> Shape x = [n0, n1] \<Longrightarrow> wf_array x
      \<Longrightarrow> body j i x = Inr (x\<lparr>Elements := (Elements x)[flat_index [n0, n1] [j, i] := ?v j i]\<rparr>)"
  proof -
    fix j i and x :: "'f DenseArray"
    assume b: "j < n0" "i < n1" and x: "Shape x = [n0, n1]" "wf_array x"
    have "code_in_range table (f2i E (cell lu [j, i]))"
      using ok cell_in_set[OF sh wf b] by blast
    then show "body j i x = Inr (x\<lparr>Elements := (Elements x)[flat_index [n0, n1] [j, i] := ?v j i]\<rparr>)"
      using remap_cell_expr[OF sh wf x b len, of E conv] body by simp
  qed
  have "for_each (\<lambda>j. for_each (body j) [0..<n1]) [0..<n0] (ZerosDense E [n0, n1])
         = Inr \<lparr>Elements = map (\<lambda>n. ?v (n div n1) (n mod n1)) [0..<n0 * n1], Shape = [n0, n1]\<rparr>"
    by (rule rows_columns_ok[OF step])
  moreover have "map (\<lambda>n. ?v (n div n1) (n mod n1)) [0..<n0 * n1]
                 = map (\<lambda>v. conv (table ! nat (f2i E v - 1))) (Elements lu)"
  proof (rule nth_equalityI)
    show "length (map (\<lambda>n. ?v (n div n1) (n mod n1)) [0..<n0 * n1])
          = length (map (\<lambda>v. conv (table ! nat (f2i E v - 1))) (Elements lu))"
      using sh wf by (simp add: wf_array_def)
  next
    fix n assume "n < length (map (\<lambda>n. ?v (n div n1) (n mod n1)) [0..<n0 * n1])"
    then have n: "n < n0 * n1" by simp
    then have "n < length (Elements lu)" using sh wf by (simp add: wf_array_def)
    moreover have "cell lu [n div n1, n mod n1] = Elements lu ! n"
      using sh by (simp add: cell_def)
    ultimately show "map (\<lambda>n. ?v (n div n1) (n mod n1)) [0..<n0 * n1] ! n
          = map (\<lambda>v. conv (table ! nat (f2i E v - 1))) (Elements lu) ! n"
      using n by simp
  qed
  ultimately show ?thesis by simp
qed

lemma remap_rows_columns_panics:
  fixes E :: "'f env" and body :: "nat \<Rightarrow> nat \<Rightarrow> 'f DenseArray \<Rightarrow> panic + 'f DenseArray"
  assumes body: "\<And>j i x. body j i x
        = pbind (DenseArray_Get E lu [j, i]) (\<lambda>v.
          pbind (slice_at table (int_sub1 (f2i E v))) (\<lambda>c.
            DenseArray_Set E x (conv c) [j, i]))"
    and sh: "Shape lu = [n0, n1]" and wf: "wf_array lu" and len: "length table \<le> 40"
    and v: "v \<in> set (Elements lu)" and bad: "\<not> code_in_range table (f2i E v)"
  shows "for_each (\<lambda>j. for_each (body j) [0..<n1]) [0..<n0] (ZerosDense E [n0, n1])
         = Inl IndexOutOfRange"
proof -
  let ?v = "\<lambda>j i. conv (table ! nat (f2i E (cell lu [j, i]) - 1))"
  obtain n where n: "n < length (Elements lu)" "Elements lu ! n = v"
    using v by (auto simp: in_set_conv_nth)
  have nn: "n < n0 * n1" using n(1) sh wf by (simp add: wf_array_def)
  then have n1: "0 < n1" by (cases n1) simp_all
  have j0: "n div n1 < n0" using nn by (simp add: less_mult_imp_div_less mult.commute)
  have i0: "n mod n1 < n1" using n1 by simp
  have c0: "cell lu [n div n1, n mod n1] = v" using sh n(2) by (simp add: cell_def)
  have step: "\<And>j i (x::'f DenseArray). j < n0 \<Longrightarrow> i < n1 \<Longrightarrow> Shape x = [n0, n1] \<Longrightarrow> wf_array x
      \<Longrightarrow> body j i x = Inl IndexOutOfRange
          \<or> body j i x = Inr (x\<lparr>Elements := (Elements x)[flat_index [n0, n1] [j, i] := ?v j i]\<rparr>)"
  proof -
    fix j i and x :: "'f DenseArray"
    assume b: "j < n0" "i < n1" and x: "Shape x = [n0, n1]" "wf_array x"
    show "body j i x = Inl IndexOutOfRange
          \<or> body j i x = Inr (x\<lparr>Elements := (Elements x)[flat_index [n0, n1] [j, i] := ?v j i]\<rparr>)"
      using remap_cell_expr[OF sh wf x b len, of E conv] body by simp
  qed
  have bad0: "\<And>x::'f DenseArray. Shape x = [n0, n1] \<Longrightarrow> wf_array x
      \<Longrightarrow> body (n div n1) (n mod n1) x = Inl IndexOutOfRange"
  proof -
    fix x :: "'f DenseArray"
    assume x: "Shape x = [n0, n1]" "wf_array x"
    show "body (n div n1) (n mod n1) x = Inl IndexOutOfRange"
      using remap_cell_expr[OF sh wf x j0 i0 len, of E conv] body bad c0 by simp
  qed
  show ?thesis
    by (rule rows_columns_panics[where v = ?v, OF step bad0 j0 i0])
qed

lemma map_nth_elements: "map (\<lambda>i. f (xs ! i)) [0..<length xs] = map f xs"
  by (rule nth_equalityI) simp_all

lemma z0_loop_ok:
  fixes E :: "'f env"
  assumes wf: "wf_array lu"
    and ok: "\<forall>v\<in>set (Elements lu). code_in_range (NLCDz0 E) (f2i E v)"
  shows "for_each (z0_cell E) (enumerate 0 (Elements lu)) (ZerosDense E (Shape lu))
         = Inr \<lparr>Elements = map (\<lambda>v. NLCDz0 E ! nat (f2i E v - 1)) (Elements lu),
                Shape = Shape lu\<rparr>"
proof -
  let ?v = "\<lambda>i. NLCDz0 E ! nat (f2i E (Elements lu ! i) - 1)"
  have len: "length (Elements (ZerosDense E (Shape lu))) = length (Elements lu)"
    using wf by (simp add: ZerosDense_def wf_array_def)
  have step: "\<And>i (x::'f DenseArray). i < length (Elements lu)
        \<Longrightarrow> length (Elements x) = length (Elements lu)
        \<Longrightarrow> z0_cell E (i, Elements lu ! i) x = Inr (x\<lparr>Elements := (Elements x)[i := ?v i]\<rparr>)"
    using ok by (simp add: z0_cell_def table_lookup length_NLCDz0 slice_set_def pbind_Inr)
  have "for_each (z0_cell E) (enumerate 0 (Elements lu)) (ZerosDense E (Shape lu))
        = Inr ((ZerosDense E (Shape lu))\<lparr>Elements := map ?v [0..<length (Elements lu)]\<rparr>)"
    by (rule for_each_enumerate_ok[OF step len])
  then show ?thesis
    by (simp add: map_nth_elements[of "\<lambda>v. NLCDz0 E ! nat (f2i E v - 1)"] ZerosDense_def)
qed

lemma z0_loop_panics:
  fixes E :: "'f env"
  assumes wf: "wf_array lu"
    and v: "v \<in> set (Elements lu)" and bad: "\<not> code_in_range (NLCDz0 E) (f2i E v)"
  shows "for_each (z0_cell E) (enumerate 0 (Elements lu)) (ZerosDense E (Shape lu))
         = Inl IndexOutOfRange"
proof -
  let ?I = "\<lambda>x::'f DenseArray. length (Elements x) = length (Elements lu)"
  obtain n where n: "n < length (Elements lu)" "Elements lu ! n = v"
    using v by (auto simp: in_set_conv_nth)
  have mem: "(n, v) \<in> set (enumerate 0 (Elements lu))"
    using n by (simp add: in_set_enumerate_eq)
  have all: "\<And>t x. t \<in> set (enumerate 0 (Elements lu)) \<Longrightarrow> ?I x
      \<Longrightarrow> z0_cell E t x = Inl IndexOutOfRange \<or> (\<exists>x'. z0_cell E t x = Inr x' \<and> ?I x')"
    by (auto simp: z0_cell_def table_lookup length_NLCDz0 slice_set_def pbind_def
        in_set_enumerate_eq)
  have bad0: "\<And>x. ?I x \<Longrightarrow> z0_cell E (n, v) x = Inl IndexOutOfRange"
    using bad by (simp add: z0_cell_def table_lookup length_NLCDz0 pbind_Inl)
  have I0: "?I (ZerosDense E (Shape lu))"
    using wf by (simp add: ZerosDense_def wf_array_def)
  show ?thesis
    by (rule for_each_panics[where I = ?I and body = "z0_cell E" and e = IndexOutOfRange,
          OF all mem bad0 I0])
qed

lemma seinfeld_pull:
  assumes "luFunc s = (Ok lu, s')" and "Shape lu = [n0, n1]"
  shows "cmaqSeinfeldLandUse E luFunc s
         = (lift (for_each (\<lambda>j. for_each (seinfeld_cell E lu j) [0..<n1]) [0..<n0]
                    (ZerosDense E [n0, n1])), s')"
  using assms by (simp add: cmaqSeinfeldLandUse_def pull_Ok slice_at_def pbind_Inr)

lemma wesely_pull:
  assumes "luFunc s = (Ok lu, s')" and "Shape lu = [n0, n1]"
  shows "cmaqWeselyLandUse E luFunc s
         = (lift (for_each (\<lambda>j. for_each (wesely_cell E lu j) [0..<n1]) [0..<n0]
                    (ZerosDense E [n0, n1])), s')"
  using assms by (simp add: cmaqWeselyLandUse_def pull_Ok slice_at_def pbind_Inr)

lemma z0_pull:
  assumes "luFunc s = (Ok lu, s')"
  shows "cmaqZ0 E luFunc s
         = (lift (for_each (z0_cell E) (enumerate 0 (Elements lu)) (ZerosDense E (Shape lu))), s')"
  using assms by (simp add: cmaqZ0_def pull_Ok)

lemma trunc64_whole:
  "- (2 ^ 63) \<le> n \<Longrightarrow> n < 2 ^ 63 \<Longrightarrow> trunc64 (Fin (of_int n)) = n"
  by (simp add: trunc64_def Let_def)

lemma trunc64_numeral: "numeral n < (2 ^ 63 :: int) \<Longrightarrow> trunc64 (Fin (numeral n)) = numeral n"
  using trunc64_whole[of "numeral n"] by simp

lemma trunc64_0: "trunc64 (Fin 0) = 0"
  using trunc64_whole[of 0] by simp

lemma trunc64_1: "trunc64 (Fin 1) = 1"
  using trunc64_whole[of 1] by simp

lemma E64_f2i: "f2i E64 = trunc64"
  by (simp add: E64_def)

section \<open>The claims\<close>

subsection \<open>Claim C1: temperature\<close>

text \<open>
  Claim C1. For every perturbation potential temperature grid \<open>\<theta>'\<close> and pressure grid \<open>p\<close>
  of the same shape, each cell of the grid a pull of the temperature combinator returns
  is \<open>(\<theta>'[cell] + 300) * (p[cell] / 101300)^0.2854\<close>, the operations being those of
  \<^verbatim>\<open>float64\<close> and the power \<^verbatim>\<open>math.Pow\<close>; and for \<open>\<theta>' = 0\<close>, \<open>p = 101300\<close> the result
  is exactly 300 in binary64.
\<close>

theorem temperature_cells:
  fixes E :: "'f env"
  assumes "thetaFunc s = (Ok th, s')" and "pFunc s' = (Ok p, s'')"
    and "Shape p = Shape th" and "wf_array th" and "wf_array p"
  shows "cmaqTemperatureConvert E thetaFunc pFunc s
         = (Ok \<lparr>Elements = map2 (\<lambda>tp pv. fmul E (fadd E tp (flit E 300))
                                     (math_Pow E (fdiv E pv (flit E 101300)) (flit E (2854 / 10000))))
                               (Elements th) (Elements p),
                 Shape = Shape th\<rparr>, s'')
         \<and> thetaPerturbToTemperature E64 (Fin 0) (Fin 101300) = Fin 300"
proof -
  have "length (Elements th) \<le> length (Elements p)"
    using assms(3-5) by (simp add: wf_array_def)
  then have "for_each (temperature_cell E p) (enumerate 0 (Elements th)) (ZerosDense E (Shape th))
         = Inr \<lparr>Elements = map2 (thetaPerturbToTemperature E) (Elements th) (Elements p),
                Shape = Shape th\<rparr>"
    using assms(4) by (rule temperature_loop_ok)
  then have "cmaqTemperatureConvert E thetaFunc pFunc s
         = (Ok \<lparr>Elements = map2 (thetaPerturbToTemperature E) (Elements th) (Elements p),
                 Shape = Shape th\<rparr>, s'')"
    using assms(1,2) by (simp add: cmaqTemperatureConvert_def pull_Ok lift_def)
  moreover have "thetaPerturbToTemperature E
                 = (\<lambda>tp pv. fmul E (fadd E tp (flit E 300))
                       (math_Pow E (fdiv E pv (flit E 101300)) (flit E (2854 / 10000))))"
    by (intro ext) (simp add: thetaPerturbToTemperature_def Let_def)
  ultimately show ?thesis using temperature_at_reference by simp
qed

theorem temperature_cells_witness:
  "cmaqTemperatureConvert E64
     (constData \<lparr>Elements = [Fin 0, Fin 0], Shape = [2, 1]\<rparr>)
     (constData \<lparr>Elements = [Fin 101300, Fin 101300], Shape = [2, 1]\<rparr>) (0::nat)
   = (Ok \<lparr>Elements = [Fin 300, Fin 300], Shape = [2, 1]\<rparr> :: (unit, float64 DenseArray) outcome, 0)"
proof -
  let ?th = "\<lparr>Elements = [Fin 0, Fin 0], Shape = [2, 1]\<rparr>"
  let ?p = "\<lparr>Elements = [Fin 101300, Fin 101300], Shape = [2, 1]\<rparr>"
  have c: "cmaqTemperatureConvert E64 (constData ?th) (constData ?p) (0::nat)
         = (Ok \<lparr>Elements = map2 (\<lambda>tp pv. fmul E64 (fadd E64 tp (flit E64 300))
                                     (math_Pow E64 (fdiv E64 pv (flit E64 101300)) (flit E64 (2854 / 10000))))
                               (Elements ?th) (Elements ?p),
                 Shape = Shape ?th\<rparr> :: (unit, float64 DenseArray) outcome, 0)
         \<and> thetaPerturbToTemperature E64 (Fin 0) (Fin 101300) = Fin 300"
    by (rule temperature_cells[where s' = 0]) (simp_all add: constData_def wf_array_def)
  then have "fmul E64 (fadd E64 (Fin 0) (flit E64 300))
               (math_Pow E64 (fdiv E64 (Fin 101300) (flit E64 101300)) (flit E64 (2854 / 10000)))
             = Fin 300"
    by (simp add: thetaPerturbToTemperature_def Let_def)
  then show ?thesis using c by simp
qed

subsection \<open>Claim C2: layer height\<close>




subsection \<open>Claim C3: land-use codes out of range\<close>

text \<open>
  Claim C3, as the code has it. For every well-formed land-use grid containing some cell
  whose code \<open>f2i(cell)\<close> is 0, negative or greater than the length of the table, a pull
  of each remapper (Seinfeld and Wesely on a two-dimensional grid, roughness length on
  any grid) panics with Go's index-out-of-range run-time error: no grid is returned and
  no value is clamped or defaulted, and no error value is returned either.
\<close>

theorem remap_bad_code_panics:
  fixes E :: "'f env"
  assumes "luFunc s = (Ok lu, s')" and "wf_array lu" and "v \<in> set (Elements lu)"
  shows "(Shape lu = [n0, n1] \<and> \<not> code_in_range NLCDseinfeld (f2i E v) \<longrightarrow>
            cmaqSeinfeldLandUse E luFunc s = (Panic IndexOutOfRange, s'))
       \<and> (Shape lu = [n0, n1] \<and> \<not> code_in_range NLCDwesely (f2i E v) \<longrightarrow>
            cmaqWeselyLandUse E luFunc s = (Panic IndexOutOfRange, s'))
       \<and> (\<not> code_in_range (NLCDz0 E) (f2i E v) \<longrightarrow>
            cmaqZ0 E luFunc s = (Panic IndexOutOfRange, s'))"
proof (intro conjI impI)
  assume a: "Shape lu = [n0, n1] \<and> \<not> code_in_range NLCDseinfeld (f2i E v)"
  have "for_each (\<lambda>j. for_each (seinfeld_cell E lu j) [0..<n1]) [0..<n0] (ZerosDense E [n0, n1])
        = Inl IndexOutOfRange"
    using a assms(2,3)
    by (intro remap_rows_columns_panics[where table = NLCDseinfeld and conv = "seinfeld_float64 E"
          and v = v])
       (simp_all add: seinfeld_cell_def length_NLCDseinfeld)
  then show "cmaqSeinfeldLandUse E luFunc s = (Panic IndexOutOfRange, s')"
    using a assms(1) by (simp add: seinfeld_pull lift_Inl)
next
  assume a: "Shape lu = [n0, n1] \<and> \<not> code_in_range NLCDwesely (f2i E v)"
  have "for_each (\<lambda>j. for_each (wesely_cell E lu j) [0..<n1]) [0..<n0] (ZerosDense E [n0, n1])
        = Inl IndexOutOfRange"
    using a assms(2,3)
    by (intro remap_rows_columns_panics[where table = NLCDwesely and conv = "wesely1989_float64 E"
          and v = v])
       (simp_all add: wesely_cell_def length_NLCDwesely)
  then show "cmaqWeselyLandUse E luFunc s = (Panic IndexOutOfRange, s')"
    using a assms(1) by (simp add: wesely_pull lift_Inl)
next
  assume a: "\<not> code_in_range (NLCDz0 E) (f2i E v)"
  show "cmaqZ0 E luFunc s = (Panic IndexOutOfRange, s')"
    using a assms by (simp add: z0_pull z0_loop_panics lift_Inl)
qed

theorem remap_bad_code_panics_witness:
  "cmaqSeinfeldLandUse E64 (constData \<lparr>Elements = [Fin 1, Fin 41, Fin 3, Fin 4], Shape = [2, 2]\<rparr>) (0::nat)
   = (Panic IndexOutOfRange :: (unit, float64 DenseArray) outcome, 0)
   \<and> cmaqWeselyLandUse E64 (constData \<lparr>Elements = [Fin 1, Fin 41, Fin 3, Fin 4], Shape = [2, 2]\<rparr>) (0::nat)
   = (Panic IndexOutOfRange :: (unit, float64 DenseArray) outcome, 0)
   \<and> cmaqZ0 E64 (constData \<lparr>Elements = [Fin 1, Fin 41, Fin 3, Fin 4], Shape = [2, 2]\<rparr>) (0::nat)
   = (Panic IndexOutOfRange :: (unit, float64 DenseArray) outcome, 0)"
proof -
  let ?lu = "\<lparr>Elements = [Fin 1, Fin 41, Fin 3, Fin 4], Shape = [2, 2]\<rparr>"
  have "(Shape ?lu = [2, 2] \<and> \<not> code_in_range NLCDseinfeld (f2i E64 (Fin 41)) \<longrightarrow>
            cmaqSeinfeldLandUse E64 (constData ?lu) (0::nat)
            = (Panic IndexOutOfRange :: (unit, float64 DenseArray) outcome, 0))
       \<and> (Shape ?lu = [2, 2] \<and> \<not> code_in_range NLCDwesely (f2i E64 (Fin 41)) \<longrightarrow>
            cmaqWeselyLandUse E64 (constData ?lu) (0::nat)
            = (Panic IndexOutOfRange :: (unit, float64 DenseArray) outcome, 0))
       \<and> (\<not> code_in_range (NLCDz0 E64) (f2i E64 (Fin 41)) \<longrightarrow>
            cmaqZ0 E64 (constData ?lu) (0::nat)
            = (Panic IndexOutOfRange :: (unit, float64 DenseArray) outcome, 0))"
    by (rule remap_bad_code_panics) (simp_all add: constData_def wf_array_def)
  moreover have "\<not> code_in_range NLCDseinfeld (f2i E64 (Fin 41))"
    "\<not> code_in_range NLCDwesely (f2i E64 (Fin 41))"
    "\<not> code_in_range (NLCDz0 E64) (f2i E64 (Fin 41))"
    by (simp_all add: code_in_range_def length_NLCDseinfeld length_NLCDwesely length_NLCDz0
        E64_f2i trunc64_numeral)
  ultimately show ?thesis by simp
qed

text \<open>
  The spec's reading of C3 (the pull fails with a LookupRangeError returned to the
  caller) does not hold: with code 0 in a cell, the pull of the roughness-length remapper
  returns nothing, neither a grid nor an error; it panics on \<^verbatim>\<open>NLCDz0[-1]\<close>.
\<close>

theorem remap_code_zero_panics:
  "cmaqZ0 E64 (constData \<lparr>Elements = [Fin 0], Shape = [1, 1]\<rparr>) ()
   = (Panic IndexOutOfRange, ())"
proof -
  let ?lu = "\<lparr>Elements = [Fin 0], Shape = [1, 1]\<rparr>"
  have "for_each (z0_cell E64) (enumerate 0 (Elements ?lu)) (ZerosDense E64 (Shape ?lu))
         = Inl IndexOutOfRange"
    by (rule z0_loop_panics[where v = "Fin 0"])
       (simp_all add: wf_array_def code_in_range_def E64_f2i trunc64_0)
  then show ?thesis
    by (simp add: cmaqZ0_def constData_def pull_def lift_Inl)
qed

subsection \<open>Claim C4: grids of different shape\<close>

text \<open>
  Claim C4, as the code has it. No combinator of the file compares shapes or returns a
  shape-mismatch error. When both upstream pulls return grids, the first of them well
  formed:
  \<^item> if the pressure grid holds at least as many elements as the \<open>\<theta>'\<close> grid, a pull of the
    temperature combinator succeeds, whatever the two shapes, with a grid of the shape
    of \<open>\<theta>'\<close> whose cell \<open>i\<close> is computed from \<open>\<theta>'[i]\<close> and \<open>p[i]\<close>;
  \<^item> if it holds fewer, the pull panics with an index out of range (the loop reads
    \<^verbatim>\<open>p.Elements[i]\<close> past its end);
  \<^item> a pull of the temperature, pressure, radiation or layer-height combinator never
    returns an error value: a failure, if any, is a run-time panic.
\<close>

theorem no_shape_check:
  fixes E :: "'f env"
  assumes "firstFunc s = (Ok A, s')" and "secondFunc s' = (Ok B, s'')" and "wf_array A"
  shows "(length (Elements A) \<le> length (Elements B) \<longrightarrow>
            cmaqTemperatureConvert E firstFunc secondFunc s
            = (Ok \<lparr>Elements = map2 (thetaPerturbToTemperature E) (Elements A) (Elements B),
                    Shape = Shape A\<rparr>, s''))
       \<and> (length (Elements B) < length (Elements A) \<longrightarrow>
            cmaqTemperatureConvert E firstFunc secondFunc s = (Panic IndexOutOfRange, s''))
       \<and> (\<forall>e. fst (cmaqTemperatureConvert E firstFunc secondFunc s) \<noteq> Err e
              \<and> fst (cmaqPressureConvert E secondFunc firstFunc s) \<noteq> Err e
              \<and> fst (cmaqRadiationDown E firstFunc secondFunc s) \<noteq> Err e
              \<and> fst (Height_pull E firstFunc secondFunc s) \<noteq> Err e)"
  using assms
  by (simp add: cmaqTemperatureConvert_def cmaqPressureConvert_def cmaqRadiationDown_def
      Height_pull_def pull_Ok temperature_loop_ok temperature_loop_panics lift_Inr lift_Inl
      lift_not_Err)

theorem no_shape_check_witness:
  "cmaqTemperatureConvert E64
     (constData \<lparr>Elements = [Fin 0, Fin 0], Shape = [1, 2]\<rparr>)
     (constData \<lparr>Elements = [Fin 101300, Fin 101300], Shape = [2, 1]\<rparr>) (0::nat)
   = (Ok \<lparr>Elements = [Fin 300, Fin 300], Shape = [1, 2]\<rparr> :: (unit, float64 DenseArray) outcome, 0)
   \<and> cmaqTemperatureConvert E64
     (constData \<lparr>Elements = [Fin 0, Fin 0], Shape = [2, 1, 1]\<rparr>)
     (constData \<lparr>Elements = [Fin 101300], Shape = [1, 1, 1]\<rparr>) (0::nat)
   = (Panic IndexOutOfRange :: (unit, float64 DenseArray) outcome, 0)"
proof -
  let ?A = "\<lparr>Elements = [Fin 0, Fin 0], Shape = [1, 2]\<rparr>"
  let ?B = "\<lparr>Elements = [Fin 101300, Fin 101300], Shape = [2, 1]\<rparr>"
  let ?A' = "\<lparr>Elements = [Fin 0, Fin 0], Shape = [2, 1, 1]\<rparr>"
  let ?B' = "\<lparr>Elements = [Fin 101300], Shape = [1, 1, 1]\<rparr>"
  have "(length (Elements ?A) \<le> length (Elements ?B) \<longrightarrow>
            cmaqTemperatureConvert E64 (constData ?A) (constData ?B) (0::nat)
            = (Ok \<lparr>Elements = map2 (thetaPerturbToTemperature E64) (Elements ?A) (Elements ?B),
                    Shape = Shape ?A\<rparr> :: (unit, float64 DenseArray) outcome, 0))
       \<and> (length (Elements ?B) < length (Elements ?A) \<longrightarrow>
            cmaqTemperatureConvert E64 (constData ?A) (constData ?B) (0::nat)
            = (Panic IndexOutOfRange :: (unit, float64 DenseArray) outcome, 0))
       \<and> (\<forall>e. fst (cmaqTemperatureConvert E64 (constData ?A) (constData ?B) (0::nat)
                    :: (unit, float64 DenseArray) outcome \<times> nat) \<noteq> Err e
              \<and> fst (cmaqPressureConvert E64 (constData ?B) (constData ?A) (0::nat)
                    :: (unit, float64 DenseArray) outcome \<times> nat) \<noteq> Err e
              \<and> fst (cmaqRadiationDown E64 (constData ?A) (constData ?B) (0::nat)
                    :: (unit, float64 DenseArray) outcome \<times> nat) \<noteq> Err e
              \<and> fst (Height_pull E64 (constData ?A) (constData ?B) (0::nat)
                    :: (unit, float64 DenseArray) outcome \<times> nat) \<noteq> Err e)"
    by (rule no_shape_check[where s' = 0]) (simp_all add: constData_def wf_array_def)
  then have one: "cmaqTemperatureConvert E64 (constData ?A) (constData ?B) (0::nat)
      = (Ok \<lparr>Elements = [Fin 300, Fin 300], Shape = [1, 2]\<rparr> :: (unit, float64 DenseArray) outcome, 0)"
    by (simp add: temperature_at_reference)
  have "(length (Elements ?A') \<le> length (Elements ?B') \<longrightarrow>
            cmaqTemperatureConvert E64 (constData ?A') (constData ?B') (0::nat)
            = (Ok \<lparr>Elements = map2 (thetaPerturbToTemperature E64) (Elements ?A') (Elements ?B'),
                    Shape = Shape ?A'\<rparr> :: (unit, float64 DenseArray) outcome, 0))
       \<and> (length (Elements ?B') < length (Elements ?A') \<longrightarrow>
            cmaqTemperatureConvert E64 (constData ?A') (constData ?B') (0::nat)
            = (Panic IndexOutOfRange :: (unit, float64 DenseArray) outcome, 0))
       \<and> (\<forall>e. fst (cmaqTemperatureConvert E64 (constData ?A') (constData ?B') (0::nat)
                    :: (unit, float64 DenseArray) outcome \<times> nat) \<noteq> Err e
              \<and> fst (cmaqPressureConvert E64 (constData ?B') (constData ?A') (0::nat)
                    :: (unit, float64 DenseArray) outcome \<times> nat) \<noteq> Err e
              \<and> fst (cmaqRadiationDown E64 (constData ?A') (constData ?B') (0::nat)
                    :: (unit, float64 DenseArray) outcome \<times> nat) \<noteq> Err e
              \<and> fst (Height_pull E64 (constData ?A') (constData ?B') (0::nat)
                    :: (unit, float64 DenseArray) outcome \<times> nat) \<noteq> Err e)"
    by (rule no_shape_check[where s' = 0]) (simp_all add: constData_def wf_array_def)
  then have two: "cmaqTemperatureConvert E64 (constData ?A') (constData ?B') (0::nat)
      = (Panic IndexOutOfRange :: (unit, float64 DenseArray) outcome, 0)"
    by simp
  show ?thesis using one two by simp
qed

text \<open>
  The spec's reading of C4 (grids of different shape make every combinator fail with a
  shape-mismatch error before any cell is computed) fails for the temperature combinator:
  a one-layer \<open>\<theta>'\<close> grid and a two-layer pressure grid are accepted, and the result is
  computed from the first pressure layer.
\<close>

theorem temperature_mismatch_accepted:
  "cmaqTemperatureConvert E64
     (constData \<lparr>Elements = [Fin 0], Shape = [1, 1, 1]\<rparr>)
     (constData \<lparr>Elements = [Fin 101300, Fin 101300], Shape = [2, 1, 1]\<rparr>) ()
   = (Ok \<lparr>Elements = [Fin 300], Shape = [1, 1, 1]\<rparr>, ())"
proof -
  let ?A = "\<lparr>Elements = [Fin 0], Shape = [1, 1, 1]\<rparr>"
  let ?B = "\<lparr>Elements = [Fin 101300, Fin 101300], Shape = [2, 1, 1]\<rparr>"
  have "for_each (temperature_cell E64 ?B) (enumerate 0 (Elements ?A)) (ZerosDense E64 (Shape ?A))
         = Inr \<lparr>Elements = map2 (thetaPerturbToTemperature E64) (Elements ?A) (Elements ?B),
                Shape = Shape ?A\<rparr>"
    by (rule temperature_loop_ok) (simp_all add: wf_array_def)
  then show ?thesis
    by (simp add: cmaqTemperatureConvert_def constData_def pull_def lift_Inr
        temperature_at_reference)
qed

subsection \<open>Claim C5: pressure and downwelling radiation\<close>

text \<open>
  Claim C5. For every pair of well-formed input grids of equal shape, a pull of the
  pressure combinator returns the elementwise \<^verbatim>\<open>float64\<close> sum of the baseline \<open>PB\<close>
  (pulled first) and the perturbation \<open>P\<close>, and a pull of the radiation combinator returns
  the elementwise sum of \<open>SWDOWN\<close> (pulled first) and \<open>GLW\<close>; each output has the common
  shape. In the statement \<open>A\<close> is the grid pulled first (\<open>PB\<close>, \<open>SWDOWN\<close>) and \<open>B\<close> the
  grid pulled second (\<open>P\<close>, \<open>GLW\<close>).
\<close>

theorem sum_combinators:
  fixes E :: "'f env"
  assumes "firstFunc s = (Ok A, s')" and "secondFunc s' = (Ok B, s'')"
    and "Shape B = Shape A" and "wf_array A" and "wf_array B"
  shows "cmaqPressureConvert E secondFunc firstFunc s
         = (Ok \<lparr>Elements = map2 (fadd E) (Elements A) (Elements B), Shape = Shape A\<rparr>, s'')
       \<and> cmaqRadiationDown E firstFunc secondFunc s
         = (Ok \<lparr>Elements = map2 (fadd E) (Elements A) (Elements B), Shape = Shape A\<rparr>, s'')"
  using assms
  by (simp add: cmaqPressureConvert_def cmaqRadiationDown_def pull_Ok AddDense_same_shape lift_Inr)

theorem sum_combinators_witness:
  "cmaqPressureConvert E64
     (constData \<lparr>Elements = [Fin 5, Fin 7], Shape = [2]\<rparr>)
     (constData \<lparr>Elements = [Fin 100000, Fin 90000], Shape = [2]\<rparr>) (0::nat)
   = (Ok \<lparr>Elements = [fadd E64 (Fin 100000) (Fin 5), fadd E64 (Fin 90000) (Fin 7)], Shape = [2]\<rparr>
        :: (unit, float64 DenseArray) outcome, 0)
   \<and> cmaqRadiationDown E64
     (constData \<lparr>Elements = [Fin 100000, Fin 90000], Shape = [2]\<rparr>)
     (constData \<lparr>Elements = [Fin 5, Fin 7], Shape = [2]\<rparr>) (0::nat)
   = (Ok \<lparr>Elements = [fadd E64 (Fin 100000) (Fin 5), fadd E64 (Fin 90000) (Fin 7)], Shape = [2]\<rparr>
        :: (unit, float64 DenseArray) outcome, 0)"
proof -
  let ?A = "\<lparr>Elements = [Fin 100000, Fin 90000], Shape = [2]\<rparr>"
  let ?B = "\<lparr>Elements = [Fin 5, Fin 7], Shape = [2]\<rparr>"
  have "cmaqPressureConvert E64 (constData ?B) (constData ?A) (0::nat)
         = (Ok \<lparr>Elements = map2 (fadd E64) (Elements ?A) (Elements ?B), Shape = Shape ?A\<rparr>
              :: (unit, float64 DenseArray) outcome, 0)
       \<and> cmaqRadiationDown E64 (constData ?A) (constData ?B) (0::nat)
         = (Ok \<lparr>Elements = map2 (fadd E64) (Elements ?A) (Elements ?B), Shape = Shape ?A\<rparr>
              :: (unit, float64 DenseArray) outcome, 0)"
    by (rule sum_combinators[where s' = 0]) (simp_all add: constData_def wf_array_def)
  then show ?thesis by simp
qed

subsection \<open>Claim C6: land-use remapping\<close>

text \<open>
  Claim C6, as the code has it. For every well-formed land-use grid whose every cell
  holds a valid 1-based code (\<open>1 \<le> f2i(cell) \<le> length of the table\<close>), a pull of the
  roughness-length remapper returns a grid of the same shape in which every cell is the
  entry of \<open>NLCDz0\<close> at index \<open>code - 1\<close>; a pull of the Seinfeld and of the Wesely
  remapper does the same with \<open>NLCDseinfeld\<close> and \<open>NLCDwesely\<close> (the entry converted to
  \<^verbatim>\<open>float64\<close>) when the grid is two-dimensional, the rank their row and column loops
  serve.
\<close>

theorem remap_valid_codes:
  fixes E :: "'f env"
  assumes "luFunc s = (Ok lu, s')" and "wf_array lu"
  shows "(Shape lu = [n0, n1] \<and> (\<forall>v\<in>set (Elements lu). code_in_range NLCDseinfeld (f2i E v)) \<longrightarrow>
            cmaqSeinfeldLandUse E luFunc s
            = (Ok \<lparr>Elements = map (\<lambda>v. seinfeld_float64 E (NLCDseinfeld ! nat (f2i E v - 1)))
                                  (Elements lu),
                    Shape = Shape lu\<rparr>, s'))
       \<and> (Shape lu = [n0, n1] \<and> (\<forall>v\<in>set (Elements lu). code_in_range NLCDwesely (f2i E v)) \<longrightarrow>
            cmaqWeselyLandUse E luFunc s
            = (Ok \<lparr>Elements = map (\<lambda>v. wesely1989_float64 E (NLCDwesely ! nat (f2i E v - 1)))
                                  (Elements lu),
                    Shape = Shape lu\<rparr>, s'))
       \<and> ((\<forall>v\<in>set (Elements lu). code_in_range (NLCDz0 E) (f2i E v)) \<longrightarrow>
            cmaqZ0 E luFunc s
            = (Ok \<lparr>Elements = map (\<lambda>v. NLCDz0 E ! nat (f2i E v - 1)) (Elements lu),
                    Shape = Shape lu\<rparr>, s'))"
proof (intro conjI impI)
  assume a: "Shape lu = [n0, n1] \<and> (\<forall>v\<in>set (Elements lu). code_in_range NLCDseinfeld (f2i E v))"
  have "for_each (\<lambda>j. for_each (seinfeld_cell E lu j) [0..<n1]) [0..<n0] (ZerosDense E [n0, n1])
        = Inr \<lparr>Elements = map (\<lambda>v. seinfeld_float64 E (NLCDseinfeld ! nat (f2i E v - 1))) (Elements lu),
               Shape = [n0, n1]\<rparr>"
    using a assms(2)
    by (intro remap_rows_columns_ok) (simp_all add: seinfeld_cell_def length_NLCDseinfeld)
  then show "cmaqSeinfeldLandUse E luFunc s
            = (Ok \<lparr>Elements = map (\<lambda>v. seinfeld_float64 E (NLCDseinfeld ! nat (f2i E v - 1)))
                                  (Elements lu),
                    Shape = Shape lu\<rparr>, s')"
    using a assms(1) by (simp add: seinfeld_pull lift_Inr)
next
  assume a: "Shape lu = [n0, n1] \<and> (\<forall>v\<in>set (Elements lu). code_in_range NLCDwesely (f2i E v))"
  have "for_each (\<lambda>j. for_each (wesely_cell E lu j) [0..<n1]) [0..<n0] (ZerosDense E [n0, n1])
        = Inr \<lparr>Elements = map (\<lambda>v. wesely1989_float64 E (NLCDwesely ! nat (f2i E v - 1))) (Elements lu),
               Shape = [n0, n1]\<rparr>"
    using a assms(2)
    by (intro remap_rows_columns_ok) (simp_all add: wesely_cell_def length_NLCDwesely)
  then show "cmaqWeselyLandUse E luFunc s
            = (Ok \<lparr>Elements = map (\<lambda>v. wesely1989_float64 E (NLCDwesely ! nat (f2i E v - 1)))
                                  (Elements lu),
                    Shape = Shape lu\<rparr>, s')"
    using a assms(1) by (simp add: wesely_pull lift_Inr)
next
  assume a: "\<forall>v\<in>set (Elements lu). code_in_range (NLCDz0 E) (f2i E v)"
  show "cmaqZ0 E luFunc s
            = (Ok \<lparr>Elements = map (\<lambda>v. NLCDz0 E ! nat (f2i E v - 1)) (Elements lu),
                    Shape = Shape lu\<rparr>, s')"
    using a assms by (simp add: z0_pull z0_loop_ok lift_Inr)
qed

theorem remap_valid_codes_witness:
  "cmaqSeinfeldLandUse E64 (constData \<lparr>Elements = [Fin 1, Fin 13, Fin 40, Fin 5], Shape = [2, 2]\<rparr>) (0::nat)
   = (Ok \<lparr>Elements = [seinfeld_float64 E64 seinfeld_Evergreen, seinfeld_float64 E64 seinfeld_Desert,
                       seinfeld_float64 E64 seinfeld_Grass, seinfeld_float64 E64 seinfeld_Deciduous],
           Shape = [2, 2]\<rparr> :: (unit, float64 DenseArray) outcome, 0)
   \<and> cmaqWeselyLandUse E64 (constData \<lparr>Elements = [Fin 1, Fin 13, Fin 40, Fin 5], Shape = [2, 2]\<rparr>) (0::nat)
   = (Ok \<lparr>Elements = [wesely1989_float64 E64 wesely1989_Coniferous,
                       wesely1989_float64 E64 wesely1989_Urban,
                       wesely1989_float64 E64 wesely1989_Wetland,
                       wesely1989_float64 E64 wesely1989_MixedForest],
           Shape = [2, 2]\<rparr> :: (unit, float64 DenseArray) outcome, 0)
   \<and> cmaqZ0 E64 (constData \<lparr>Elements = [Fin 1, Fin 13, Fin 40, Fin 5], Shape = [2, 2]\<rparr>) (0::nat)
   = (Ok \<lparr>Elements = [NLCDz0 E64 ! 0, NLCDz0 E64 ! 12, NLCDz0 E64 ! 39, NLCDz0 E64 ! 4],
           Shape = [2, 2]\<rparr> :: (unit, float64 DenseArray) outcome, 0)"
proof -
  let ?lu = "\<lparr>Elements = [Fin 1, Fin 13, Fin 40, Fin 5], Shape = [2, 2]\<rparr>"
  have "(Shape ?lu = [2, 2] \<and> (\<forall>v\<in>set (Elements ?lu). code_in_range NLCDseinfeld (f2i E64 v)) \<longrightarrow>
            cmaqSeinfeldLandUse E64 (constData ?lu) (0::nat)
            = (Ok \<lparr>Elements = map (\<lambda>v. seinfeld_float64 E64 (NLCDseinfeld ! nat (f2i E64 v - 1)))
                                  (Elements ?lu),
                    Shape = Shape ?lu\<rparr> :: (unit, float64 DenseArray) outcome, 0))
       \<and> (Shape ?lu = [2, 2] \<and> (\<forall>v\<in>set (Elements ?lu). code_in_range NLCDwesely (f2i E64 v)) \<longrightarrow>
            cmaqWeselyLandUse E64 (constData ?lu) (0::nat)
            = (Ok \<lparr>Elements = map (\<lambda>v. wesely1989_float64 E64 (NLCDwesely ! nat (f2i E64 v - 1)))
                                  (Elements ?lu),
                    Shape = Shape ?lu\<rparr> :: (unit, float64 DenseArray) outcome, 0))
       \<and> ((\<forall>v\<in>set (Elements ?lu). code_in_range (NLCDz0 E64) (f2i E64 v)) \<longrightarrow>
            cmaqZ0 E64 (constData ?lu) (0::nat)
            = (Ok \<lparr>Elements = map (\<lambda>v. NLCDz0 E64 ! nat (f2i E64 v - 1)) (Elements ?lu),
                    Shape = Shape ?lu\<rparr> :: (unit, float64 DenseArray) outcome, 0))"
    by (rule remap_valid_codes) (simp_all add: constData_def wf_array_def)
  moreover have "\<forall>v\<in>set (Elements ?lu). code_in_range NLCDseinfeld (f2i E64 v)"
    "\<forall>v\<in>set (Elements ?lu). code_in_range NLCDwesely (f2i E64 v)"
    "\<forall>v\<in>set (Elements ?lu). code_in_range (NLCDz0 E64) (f2i E64 v)"
    by (simp_all add: code_in_range_def length_NLCDseinfeld length_NLCDwesely length_NLCDz0
        E64_f2i trunc64_numeral trunc64_1)
  moreover have "NLCDseinfeld ! 0 = seinfeld_Evergreen" "NLCDseinfeld ! 12 = seinfeld_Desert"
    "NLCDseinfeld ! 39 = seinfeld_Grass" "NLCDseinfeld ! 4 = seinfeld_Deciduous"
    by (simp_all add: NLCDseinfeld_def)
  moreover have "NLCDwesely ! 0 = wesely1989_Coniferous" "NLCDwesely ! 12 = wesely1989_Urban"
    "NLCDwesely ! 39 = wesely1989_Wetland" "NLCDwesely ! 4 = wesely1989_MixedForest"
    by (simp_all add: NLCDwesely_def)
  ultimately show ?thesis
    by (simp add: E64_f2i trunc64_numeral trunc64_1)
qed

text \<open>
  The spec's reading of C6 (every land-use grid, of any rank) does not hold for the
  Seinfeld and Wesely remappers: on a one-dimensional grid of valid codes the outer loop
  is entered and the bound \<^verbatim>\<open>lu.Shape[1]\<close> of the inner loop does not exist, so the pull
  panics. (The roughness-length remapper, which walks \<^verbatim>\<open>Elements\<close>, serves this grid.)
\<close>

theorem remap_one_dimensional_panics:
  "cmaqSeinfeldLandUse E64 (constData \<lparr>Elements = [Fin 1, Fin 1], Shape = [2]\<rparr>) ()
   = (Panic IndexOutOfRange, ())
   \<and> cmaqWeselyLandUse E64 (constData \<lparr>Elements = [Fin 1, Fin 1], Shape = [2]\<rparr>) ()
   = (Panic IndexOutOfRange, ())"
  by (simp add: cmaqSeinfeldLandUse_def cmaqWeselyLandUse_def constData_def pull_def
      slice_at_def pbind_def lift_def upt_rec)

subsection \<open>Claim C7: upstream errors\<close>

text \<open>
  Claim C7. For every derived producer (temperature, pressure, layer height, radiation
  and the three land-use remaps): if an upstream pull returns an error, this pull of the
  derived producer returns exactly that error and no grid, and nothing is computed. When
  the producer pulled first fails, the second is not pulled (the state is the one the
  failing pull left); the result is the same for every arithmetic \<open>E\<close>.
\<close>

theorem upstream_error_returned:
  fixes E :: "'f env"
  shows "(firstFunc s = (Err e, s') \<longrightarrow>
            cmaqTemperatureConvert E firstFunc secondFunc s = (Err e, s')
          \<and> cmaqPressureConvert E secondFunc firstFunc s = (Err e, s')
          \<and> cmaqRadiationDown E firstFunc secondFunc s = (Err e, s')
          \<and> Height_pull E firstFunc secondFunc s = (Err e, s')
          \<and> cmaqSeinfeldLandUse E firstFunc s = (Err e, s')
          \<and> cmaqWeselyLandUse E firstFunc s = (Err e, s')
          \<and> cmaqZ0 E firstFunc s = (Err e, s'))
       \<and> (firstFunc s = (Ok A, s') \<and> secondFunc s' = (Err e, s'') \<longrightarrow>
            cmaqTemperatureConvert E firstFunc secondFunc s = (Err e, s'')
          \<and> cmaqPressureConvert E secondFunc firstFunc s = (Err e, s'')
          \<and> cmaqRadiationDown E firstFunc secondFunc s = (Err e, s'')
          \<and> Height_pull E firstFunc secondFunc s = (Err e, s''))"
  by (simp add: cmaqTemperatureConvert_def cmaqPressureConvert_def cmaqRadiationDown_def
      Height_pull_def cmaqSeinfeldLandUse_def cmaqWeselyLandUse_def cmaqZ0_def pull_Ok pull_Err)

theorem upstream_error_returned_witness:
  "cmaqZ0 E64 (failData ''no such file'') (0::nat) = (Err ''no such file'', 0)
   \<and> cmaqTemperatureConvert E64 (failData ''no such file'')
        (constData \<lparr>Elements = [Fin 101300], Shape = [1]\<rparr>) (0::nat) = (Err ''no such file'', 0)
   \<and> Height_pull E64 (constData \<lparr>Elements = [Fin 1], Shape = [1, 1, 1]\<rparr>)
        (failData ''no such variable'') (0::nat) = (Err ''no such variable'', 0)"
  using upstream_error_returned[where E = E64 and firstFunc = "failData ''no such file''"
      and secondFunc = "constData \<lparr>Elements = [Fin 101300], Shape = [1]\<rparr>"
      and s = "0::nat" and s' = 0 and e = "''no such file''"]
    upstream_error_returned[where E = E64
      and firstFunc = "constData \<lparr>Elements = [Fin 1], Shape = [1, 1, 1]\<rparr>"
      and secondFunc = "failData ''no such variable''"
      and A = "\<lparr>Elements = [Fin 1], Shape = [1, 1, 1]\<rparr>"
      and s = "0::nat" and s' = 0 and s'' = 0 and e = "''no such variable''"]
  by (simp add: failData_def constData_def)

subsection \<open>Claim C8: the constructor\<close>

text \<open>
  Claim C8. \<^verbatim>\<open>NewWRFCmaq\<close> returns an error and no preprocessor exactly when
  \<^verbatim>\<open>time.Parse\<close> rejects the start date or the end date in the layout \<^verbatim>\<open>inDateFormat\<close>;
  otherwise the preprocessor it returns holds the two parsed times, a record interval of
  exactly one hour and a file interval of exactly 24 hours (and the path and the message
  channel it was given). The standard library parses \<^verbatim>\<open>"1h"\<close> as one hour and \<^verbatim>\<open>"24h"\<close>
  as 24 hours; these two facts are the hypotheses.
\<close>

theorem NewWRFCmaq_result:
  assumes "time_ParseDuration T ''1h'' = Inr hour"
    and "time_ParseDuration T ''24h'' = Inr (24 * hour)"
  shows "((\<exists>err. NewWRFCmaq T WRFOut startDate endDate ch = Inl err)
            \<longleftrightarrow> (\<exists>err. time_Parse T (inDateFormat T) startDate = Inl err)
                \<or> (\<exists>err. time_Parse T (inDateFormat T) endDate = Inl err))
       \<and> (\<forall>w. NewWRFCmaq T WRFOut startDate endDate ch = Inr w \<longrightarrow>
              time_Parse T (inDateFormat T) startDate = Inr (start w)
            \<and> time_Parse T (inDateFormat T) endDate = Inr (endTime w)
            \<and> recordDelta w = hour \<and> fileDelta w = 24 * hour
            \<and> cmaqOut w = WRFOut \<and> msgChan w = ch)"
proof (cases "time_Parse T (inDateFormat T) startDate")
  case (Inl e0)
  then show ?thesis by (simp add: NewWRFCmaq_def)
next
  case t0: (Inr t0)
  show ?thesis
  proof (cases "time_Parse T (inDateFormat T) endDate")
    case (Inl e1)
    then show ?thesis using t0 by (simp add: NewWRFCmaq_def)
  next
    case t1: (Inr t1)
    show ?thesis using t0 t1 assms by (auto simp: NewWRFCmaq_def)
  qed
qed

theorem NewWRFCmaq_result_witness:
  "(\<exists>err. NewWRFCmaq sample_time ''/data/wrfout_[DATE]'' ''2005-01-01'' ''20060101'' () = Inl err)
   \<and> (\<exists>w. NewWRFCmaq sample_time ''/data/wrfout_[DATE]'' ''20050101'' ''20060101'' () = Inr w
          \<and> start w = ''20050101'' \<and> endTime w = ''20060101''
          \<and> recordDelta w = 3600000000000 \<and> fileDelta w = 86400000000000)"
proof -
  have d: "time_ParseDuration sample_time ''1h'' = Inr hour"
    "time_ParseDuration sample_time ''24h'' = Inr (24 * hour)"
    by (simp_all add: sample_time_def)
  have bad: "time_Parse sample_time (inDateFormat sample_time) ''2005-01-01''
             = Inl (''parsing time 2005-01-01 as 20060102'')"
    by (simp add: sample_time_def)
  have ok: "time_Parse sample_time (inDateFormat sample_time) ''20050101'' = Inr ''20050101''"
    "time_Parse sample_time (inDateFormat sample_time) ''20060101'' = Inr ''20060101''"
    by (simp_all add: sample_time_def)
  have one: "\<exists>err. NewWRFCmaq sample_time ''/data/wrfout_[DATE]'' ''2005-01-01'' ''20060101'' () = Inl err"
    using NewWRFCmaq_result[OF d, of "''/data/wrfout_[DATE]''" "''2005-01-01''" "''20060101''" "()"] bad
    by blast
  have "\<not> (\<exists>err. NewWRFCmaq sample_time ''/data/wrfout_[DATE]'' ''20050101'' ''20060101'' () = Inl err)"
    using NewWRFCmaq_result[OF d, of "''/data/wrfout_[DATE]''" "''20050101''" "''20060101''" "()"] ok
    by simp
  then obtain w where w: "NewWRFCmaq sample_time ''/data/wrfout_[DATE]'' ''20050101'' ''20060101'' () = Inr w"
    by (cases "NewWRFCmaq sample_time ''/data/wrfout_[DATE]'' ''20050101'' ''20060101'' ()") auto
  then have "start w = ''20050101'' \<and> endTime w = ''20060101''
          \<and> recordDelta w = 3600000000000 \<and> fileDelta w = 86400000000000"
    using NewWRFCmaq_result[OF d, of "''/data/wrfout_[DATE]''" "''20050101''" "''20060101''" "()"] ok
    by (simp add: hour_def)
  then show ?thesis using one w by blast
qed

subsection \<open>Claim C9: the sums commute\<close>

text \<open>
  Claim C9. For every pair of well-formed grids \<open>a\<close> and \<open>b\<close> of equal shape, the pressure
  combinator applied to producers of \<open>(a, b)\<close> and to producers of \<open>(b, a)\<close> returns the
  same grid, and so does the radiation combinator, \<^verbatim>\<open>float64\<close> addition being commutative.
\<close>

theorem sum_combinators_commute:
  fixes E :: "'f env"
  assumes "\<forall>x y. fadd E x y = fadd E y x"
    and "Shape b = Shape a" and "wf_array a" and "wf_array b"
  shows "cmaqPressureConvert E (constData a) (constData b) s
           = cmaqPressureConvert E (constData b) (constData a) s
       \<and> cmaqRadiationDown E (constData a) (constData b) s
           = cmaqRadiationDown E (constData b) (constData a) s
       \<and> cmaqPressureConvert E (constData a) (constData b) s
           = (Ok \<lparr>Elements = map2 (fadd E) (Elements a) (Elements b), Shape = Shape a\<rparr>, s)
       \<and> cmaqRadiationDown E (constData a) (constData b) s
           = (Ok \<lparr>Elements = map2 (fadd E) (Elements a) (Elements b), Shape = Shape a\<rparr>, s)"
proof -
  have sw: "map2 (fadd E) (Elements b) (Elements a) = map2 (fadd E) (Elements a) (Elements b)"
    using assms(1) by (intro nth_equalityI) simp_all
  show ?thesis
    using assms(2-4) sw
    by (simp add: cmaqPressureConvert_def cmaqRadiationDown_def constData_def pull_Ok
        AddDense_same_shape lift_Inr)
qed

theorem sum_combinators_commute_witness:
  "cmaqPressureConvert E64
     (constData \<lparr>Elements = [Fin 5, Fin 7], Shape = [2]\<rparr>)
     (constData \<lparr>Elements = [Fin 100000, Fin 90000], Shape = [2]\<rparr>) (0::nat)
   = (cmaqPressureConvert E64
     (constData \<lparr>Elements = [Fin 100000, Fin 90000], Shape = [2]\<rparr>)
     (constData \<lparr>Elements = [Fin 5, Fin 7], Shape = [2]\<rparr>) 0
       :: (unit, float64 DenseArray) outcome \<times> nat)
   \<and> cmaqRadiationDown E64
     (constData \<lparr>Elements = [Fin 5, Fin 7], Shape = [2]\<rparr>)
     (constData \<lparr>Elements = [Fin 100000, Fin 90000], Shape = [2]\<rparr>) (0::nat)
   = (cmaqRadiationDown E64
     (constData \<lparr>Elements = [Fin 100000, Fin 90000], Shape = [2]\<rparr>)
     (constData \<lparr>Elements = [Fin 5, Fin 7], Shape = [2]\<rparr>) 0
       :: (unit, float64 DenseArray) outcome \<times> nat)
   \<and> cmaqRadiationDown E64
     (constData \<lparr>Elements = [Fin 5, Fin 7], Shape = [2]\<rparr>)
     (constData \<lparr>Elements = [Fin 100000, Fin 90000], Shape = [2]\<rparr>) (0::nat)
   = (Ok \<lparr>Elements = [fadd E64 (Fin 5) (Fin 100000), fadd E64 (Fin 7) (Fin 90000)], Shape = [2]\<rparr>
       :: (unit, float64 DenseArray) outcome, 0)"
proof -
  let ?a = "\<lparr>Elements = [Fin 5, Fin 7], Shape = [2]\<rparr>"
  let ?b = "\<lparr>Elements = [Fin 100000, Fin 90000], Shape = [2]\<rparr>"
  have "cmaqPressureConvert E64 (constData ?a) (constData ?b) (0::nat)
           = (cmaqPressureConvert E64 (constData ?b) (constData ?a) 0
               :: (unit, float64 DenseArray) outcome \<times> nat)
       \<and> cmaqRadiationDown E64 (constData ?a) (constData ?b) (0::nat)
           = (cmaqRadiationDown E64 (constData ?b) (constData ?a) 0
               :: (unit, float64 DenseArray) outcome \<times> nat)
       \<and> cmaqPressureConvert E64 (constData ?a) (constData ?b) (0::nat)
           = (Ok \<lparr>Elements = map2 (fadd E64) (Elements ?a) (Elements ?b), Shape = Shape ?a\<rparr>
               :: (unit, float64 DenseArray) outcome, 0)
       \<and> cmaqRadiationDown E64 (constData ?a) (constData ?b) (0::nat)
           = (Ok \<lparr>Elements = map2 (fadd E64) (Elements ?a) (Elements ?b), Shape = Shape ?a\<rparr>
               :: (unit, float64 DenseArray) outcome, 0)"
    by (rule sum_combinators_commute) (simp_all add: E64_fadd_commute wf_array_def)
  moreover have "map2 (fadd E64) (Elements ?a) (Elements ?b)
                 = [fadd E64 (Fin 5) (Fin 100000), fadd E64 (Fin 7) (Fin 90000)]"
    and "Shape ?a = [2]"
    by simp_all
  ultimately show ?thesis by metis
qed

subsection \<open>Claim C10: the tables\<close>

text \<open>
  Claim C10. The three static lookup tables \<open>NLCDseinfeld\<close>, \<open>NLCDwesely\<close> and \<open>NLCDz0\<close>
  all have length 40; so a land-use code is in range for one of the three remappers
  exactly when it is in range for the other two.
\<close>

theorem tables_same_length:
  "length NLCDseinfeld = 40 \<and> length NLCDwesely = 40 \<and> length (NLCDz0 E) = 40
   \<and> code_in_range NLCDseinfeld c = code_in_range NLCDwesely c
   \<and> code_in_range NLCDwesely c = code_in_range (NLCDz0 E) c"
  by (simp add: code_in_range_def length_NLCDseinfeld length_NLCDwesely length_NLCDz0)

end
